theory Spec2Isabelle
  imports Main "HOL-Library.Multiset"
begin

section \<open>Strings\<close>

text \<open>
  Python strings are modelled as byte strings in UTF-8. The patterns the code searches
  for are ASCII, and an ASCII byte never occurs inside a multi-byte UTF-8 sequence, so
  substring containment on the bytes agrees with containment on the code points.
\<close>

definition nl :: string where
  "nl = [CHR 0x0A]"

definition apostrophe :: string where
  "apostrophe = [CHR 0x27]"

definition zap :: string where
  "zap = [CHR 0xE2, CHR 0x9A, CHR 0xA1]"

definition check_mark :: string where
  "check_mark = [CHR 0xE2, CHR 0x9C, CHR 0x93]"

definition em_dash :: string where
  "em_dash = [CHR 0xE2, CHR 0x80, CHR 0x94]"

definition fire :: string where
  "fire = [CHR 0xF0, CHR 0x9F, CHR 0x94, CHR 0xA5]"

definition warning_sign :: string where
  "warning_sign = [CHR 0xE2, CHR 0x9A, CHR 0xA0, CHR 0xEF, CHR 0xB8, CHR 0x8F]"

definition fog :: string where
  "fog = [CHR 0xF0, CHR 0x9F, CHR 0x8C, CHR 0xAB, CHR 0xEF, CHR 0xB8, CHR 0x8F]"

definition speech_balloon :: string where
  "speech_balloon = [CHR 0xF0, CHR 0x9F, CHR 0x92, CHR 0xAC]"

definition tornado :: string where
  "tornado = [CHR 0xF0, CHR 0x9F, CHR 0x8C, CHR 0xAA, CHR 0xEF, CHR 0xB8, CHR 0x8F]"

definition brain :: string where
  "brain = [CHR 0xF0, CHR 0x9F, CHR 0xA7, CHR 0xA0]"

definition bullet :: string where
  "bullet = [CHR 0xE2, CHR 0x80, CHR 0xA2]"

text \<open>\<^verbatim>\<open>s.startswith(pat)\<close>, used by the containment test below.\<close>

fun starts_with :: "string \<Rightarrow> string \<Rightarrow> bool" where
  "starts_with [] s = True"
| "starts_with (p # ps) [] = False"
| "starts_with (p # ps) (c # cs) = (p = c \<and> starts_with ps cs)"

text \<open>Python's \<^verbatim>\<open>pat in s\<close> on strings: \<open>pat\<close> occurs in \<open>s\<close> as a contiguous run.\<close>

fun str_contains :: "string \<Rightarrow> string \<Rightarrow> bool" where
  "str_contains pat [] = (pat = [])"
| "str_contains pat (c # cs) = (starts_with pat (c # cs) \<or> str_contains pat cs)"

text \<open>\<^verbatim>\<open>sep.join(xs)\<close>.\<close>

fun str_join :: "string \<Rightarrow> string list \<Rightarrow> string" where
  "str_join sep [] = []"
| "str_join sep [x] = x"
| "str_join sep (x # y # ys) = x @ sep @ str_join sep (y # ys)"

section \<open>The rule-based insight classifier (core/insights\_generator.py)\<close>

text \<open>
  The argument \<^verbatim>\<open>data\<close> of \<^verbatim>\<open>_fallback_suggestions\<close> is the summary dictionary. Its
  numeric entries are Python floats; they are only ever formatted, never computed with,
  so the number type is a parameter \<open>'n\<close> and the format \<^verbatim>\<open>:.1f\<close> is a parameter
  \<open>fmt1\<close> of the model. The histogram \<^verbatim>\<open>distribution\<close> is a dictionary, modelled as
  an association list read with \<open>map_of\<close>.
\<close>

record 'n summary_data =
  dominant_emotion :: string
  avg_energy :: 'n
  silence_pct :: 'n
  participation :: 'n
  volatility :: 'n
  psych_risk :: string
  distribution :: "(string \<times> 'n) list"

definition energised_header :: string where
  "energised_header =
     zap @ '' ENERGISED MEETING'' @ nl @ ''Team showed high energy and positive engagement.'' @ nl"

definition energised_suggestions :: "string list" where
  "energised_suggestions =
    [check_mark @ '' Momentum is strong '' @ em_dash @ '' protect it by ending meetings early this week'',
     check_mark @ '' Share quick wins publicly to reward the positive energy'',
     check_mark @ '' Add buffer time between meetings to prevent burnout'',
     check_mark @ '' Capture key insights while engagement is at peak'',
     check_mark @ '' Consider replicating this meeting format in future'']"

definition stressed_header :: string where
  "stressed_header =
     fire @ '' STRESSED / TENSE MEETING'' @ nl @ ''Team tone indicated stress and tension.'' @ nl"

definition stressed_suggestions :: "string list" where
  "stressed_suggestions =
    [warning_sign @ '' Cancel or postpone non-essential meetings this week'',
     warning_sign @ '' Offer one-to-one check-ins to understand concerns'',
     warning_sign @ '' Share something positive that'' @ apostrophe @ ''s under control'',
     warning_sign @ '' Consider postponing major decisions until tension eases'',
     warning_sign @ '' Review workload distribution across the team'']"

definition flat_header :: string where
  "flat_header =
     fog @ '' FLAT / DISENGAGED MEETING'' @ nl @ ''Team showed low energy and engagement.'' @ nl"

definition flat_suggestions :: "string list" where
  "flat_suggestions =
    [zap @ '' Cut meeting time by 50% next week to respect energy levels'',
     zap @ '' Consider ending the week early for recovery'',
     zap @ '' Create space for anonymous feedback'',
     zap @ '' Introduce interactive elements or breakout discussions'',
     zap @ '' Review if meeting objectives are clear and relevant'']"

definition thoughtful_header :: string where
  "thoughtful_header =
     speech_balloon @ '' THOUGHTFUL / FOCUSED MEETING'' @ nl @ ''Team was calm, steady, and reflective.'' @ nl"

definition thoughtful_suggestions :: "string list" where
  "thoughtful_suggestions =
    [check_mark @ '' Excellent meeting dynamics '' @ em_dash @ '' maintain this format'',
     check_mark @ '' Capture insights and decisions while they'' @ apostrophe @ ''re fresh'',
     check_mark @ '' Ask team: '' @ apostrophe @ ''What helped today'' @ apostrophe @ ''s flow?'' @ apostrophe,
     check_mark @ '' Document and repeat successful elements'',
     check_mark @ '' Consider this a baseline for future meetings'']"

definition volatile_header :: string where
  "volatile_header =
     tornado @ '' VOLATILE / UNSTABLE MEETING'' @ nl @ ''Emotional tone was unpredictable and mixed.'' @ nl"

definition volatile_suggestions :: "string list" where
  "volatile_suggestions =
    [warning_sign @ '' Follow up individually with less active participants'',
     warning_sign @ '' Reiterate shared goals and objectives in writing'',
     warning_sign @ '' Consider bringing in facilitation support'',
     warning_sign @ '' Break large group into smaller discussion groups'',
     warning_sign @ '' Review meeting structure and participation balance'']"

definition default_header :: string where
  "default_header = ''MEETING ANALYSIS'' @ nl"

definition default_suggestions :: "string list" where
  "default_suggestions =
    [''Review meeting structure and participation patterns'',
     ''Consider individual check-ins with team members'',
     ''Monitor emotional patterns in upcoming meetings'',
     ''Gather feedback on meeting effectiveness'']"

text \<open>
  Lines 86 to 143: the \<^verbatim>\<open>if\<close>/\<^verbatim>\<open>elif\<close> chain that binds \<^verbatim>\<open>category_header\<close> and
  extends the (initially empty) list \<^verbatim>\<open>suggestions\<close>.
\<close>

definition category_branch :: "string \<Rightarrow> string \<times> string list" where
  "category_branch dominant =
     (if str_contains ''Energised'' dominant then
        (energised_header, [] @ energised_suggestions)
      else if str_contains ''Stressed'' dominant \<or> str_contains ''Tense'' dominant then
        (stressed_header, [] @ stressed_suggestions)
      else if str_contains ''Flat'' dominant \<or> str_contains ''Disengaged'' dominant then
        (flat_header, [] @ flat_suggestions)
      else if str_contains ''Thoughtful'' dominant \<or> str_contains ''Constructive'' dominant then
        (thoughtful_header, [] @ thoughtful_suggestions)
      else if str_contains ''Volatile'' dominant \<or> str_contains ''Unstable'' dominant then
        (volatile_header, [] @ volatile_suggestions)
      else
        (default_header, [] @ default_suggestions))"

text \<open>\<^verbatim>\<open>data['distribution'].get(key, 0)\<close> under the format \<^verbatim>\<open>:.1f\<close>.\<close>

definition stress_share :: "('n::zero \<Rightarrow> string) \<Rightarrow> 'n summary_data \<Rightarrow> string" where
  "stress_share fmt1 data =
     fmt1 (case map_of (distribution data) (fire @ '' Stressed/Tense'') of
             None \<Rightarrow> 0 | Some v \<Rightarrow> v)"

text \<open>The f-string bound to \<^verbatim>\<open>psych_section\<close> (lines 149 to 165).\<close>

definition psych_section :: "('n::zero \<Rightarrow> string) \<Rightarrow> 'n summary_data \<Rightarrow> string" where
  "psych_section fmt1 data =
     nl @ nl @ brain @ '' PSYCHOLOGICAL SAFETY RISK: HIGH'' @ nl
     @ ''Critical factors detected '' @ em_dash @ '' immediate action required.'' @ nl @ nl
     @ ''Metrics:'' @ nl
     @ bullet @ '' Silence: '' @ fmt1 (silence_pct data) @ ''%'' @ nl
     @ bullet @ '' Stress: '' @ stress_share fmt1 data @ ''%'' @ nl
     @ bullet @ '' Volatility: '' @ fmt1 (volatility data) @ nl @ nl
     @ ''URGENT ACTIONS:'' @ nl
     @ bullet @ '' Pause all group decision-making immediately'' @ nl
     @ bullet @ '' Score team'' @ apostrophe @ ''s current working experience (1-5 scale)'' @ nl
     @ bullet @ '' Run psychological safety retrospective'' @ nl
     @ bullet @ '' Schedule one-to-one'' @ apostrophe @ ''s with all participants'' @ nl
     @ bullet @ '' Address concerns before proceeding with regular schedule'' @ nl"

text \<open>The f-string bound to \<^verbatim>\<open>psych_note\<close> (lines 169 to 183).\<close>

definition psych_note :: "('n::zero \<Rightarrow> string) \<Rightarrow> 'n summary_data \<Rightarrow> string" where
  "psych_note fmt1 data =
     nl @ nl @ warning_sign @ '' PSYCHOLOGICAL SAFETY RISK: MEDIUM'' @ nl
     @ ''Some warning signs detected '' @ em_dash @ '' monitor closely.'' @ nl @ nl
     @ ''Metrics:'' @ nl
     @ bullet @ '' Silence: '' @ fmt1 (silence_pct data) @ ''%'' @ nl
     @ bullet @ '' Stress: '' @ stress_share fmt1 data @ ''%'' @ nl
     @ bullet @ '' Volatility: '' @ fmt1 (volatility data) @ nl @ nl
     @ ''NEXT STEPS:'' @ nl
     @ bullet @ '' Monitor team dynamics in next session'' @ nl
     @ bullet @ '' Create anonymous feedback channel'' @ nl
     @ bullet @ '' Check in with quieter team members'' @ nl"

definition low_risk_line :: string where
  "low_risk_line =
     nl @ nl @ check_mark @ '' Psychological Safety: LOW RISK '' @ em_dash
     @ '' Team dynamics appear healthy''"

definition recommendations_label :: string where
  "recommendations_label = nl @ ''RECOMMENDATIONS:'' @ nl"

text \<open>\<^verbatim>\<open>InsightsGenerator._fallback_suggestions\<close>, with its three return statements.\<close>

definition fallback_suggestions :: "('n::zero \<Rightarrow> string) \<Rightarrow> 'n summary_data \<Rightarrow> string" where
  "fallback_suggestions fmt1 data =
     (let dominant = dominant_emotion data;
          (category_header, suggestions) = category_branch dominant;
          risk_level = psych_risk data
      in if risk_level = ''High'' then
           category_header @ recommendations_label @ str_join nl (take 5 suggestions)
             @ psych_section fmt1 data
         else if risk_level = ''Medium'' then
           category_header @ recommendations_label @ str_join nl (take 5 suggestions)
             @ psych_note fmt1 data
         else
           category_header @ recommendations_label @ str_join nl (take 5 suggestions)
             @ low_risk_line)"

text \<open>
  The category table in the words of the specification: an ordered list of
  (patterns, header, suggestions) entries, tested in this order, the first entry with a
  pattern contained in the dominant emotion winning, and the default otherwise.
\<close>

definition category_rules :: "(string list \<times> string \<times> string list) list" where
  "category_rules =
    [([''Energised''], energised_header, energised_suggestions),
     ([''Stressed'', ''Tense''], stressed_header, stressed_suggestions),
     ([''Flat'', ''Disengaged''], flat_header, flat_suggestions),
     ([''Thoughtful'', ''Constructive''], thoughtful_header, thoughtful_suggestions),
     ([''Volatile'', ''Unstable''], volatile_header, volatile_suggestions)]"

definition first_match :: "string \<Rightarrow> string \<times> string list" where
  "first_match dominant =
     (case find (\<lambda>rule. list_ex (\<lambda>pat. str_contains pat dominant) (fst rule)) category_rules of
        Some rule \<Rightarrow> snd rule
      | None \<Rightarrow> (default_header, default_suggestions))"

text \<open>Whether one of the five named categories matches (otherwise the default applies).\<close>

definition named_category :: "string \<Rightarrow> bool" where
  "named_category dominant =
     list_ex (\<lambda>rule. list_ex (\<lambda>pat. str_contains pat dominant) (fst rule)) category_rules"

text \<open>The text appended after the recommendations, by risk tier.\<close>

definition risk_annex :: "('n::zero \<Rightarrow> string) \<Rightarrow> 'n summary_data \<Rightarrow> string" where
  "risk_annex fmt1 data =
     (if psych_risk data = ''High'' then psych_section fmt1 data
      else if psych_risk data = ''Medium'' then psych_note fmt1 data
      else low_risk_line)"

subsection \<open>Concrete numbers for worked examples\<close>

text \<open>
  For the examples, a number is an integer count of tenths and \<open>fmt_tenths\<close> prints it
  with one decimal, as \<^verbatim>\<open>:.1f\<close> prints the float it stands for.
\<close>

fun show_nat :: "nat \<Rightarrow> string" where
  "show_nat n =
     (if n < 10 then [char_of (48 + n)]
      else show_nat (n div 10) @ [char_of (48 + n mod 10)])"

declare show_nat.simps [simp del]

definition fmt_tenths :: "int \<Rightarrow> string" where
  "fmt_tenths t =
     (if t < 0 then ''-'' else [])
       @ show_nat (nat \<bar>t\<bar> div 10) @ ''.'' @ show_nat (nat \<bar>t\<bar> mod 10)"

definition example_summary :: "int summary_data" where
  "example_summary =
     \<lparr>dominant_emotion = fire @ '' Stressed/Tense'', avg_energy = 550, silence_pct = 420,
      participation = 580, volatility = 75, psych_risk = ''High'',
      distribution = [(fire @ '' Stressed/Tense'', 600)]\<rparr>"

definition neutral_summary :: "int summary_data" where
  "neutral_summary =
     \<lparr>dominant_emotion = ''Neutral'', avg_energy = 500, silence_pct = 100,
      participation = 900, volatility = 10, psych_risk = ''Low'', distribution = []\<rparr>"

section \<open>Paths and the file system\<close>

text \<open>
  \<^verbatim>\<open>pathlib\<close> on a POSIX host. A path string is split at \<^verbatim>\<open>/\<close>; empty components and
  \<^verbatim>\<open>.\<close> components are dropped, \<^verbatim>\<open>..\<close> is kept, as \<^verbatim>\<open>PurePosixPath\<close> does.
\<close>

fun split_on :: "char \<Rightarrow> string \<Rightarrow> string list" where
  "split_on sep [] = [] # []"
| "split_on sep (c # cs) =
     (if c = sep then [] # split_on sep cs
      else (case split_on sep cs of
              [] \<Rightarrow> [c] # []
            | part # parts \<Rightarrow> (c # part) # parts))"

definition path_parts :: "string \<Rightarrow> string list" where
  "path_parts p = filter (\<lambda>part. part \<noteq> [] \<and> part \<noteq> ''.'') (split_on CHR ''/'' p)"

text \<open>
  The root of a path: exactly two leading slashes are kept as the root \<^verbatim>\<open>//\<close>, any
  other number of leading slashes is the root \<^verbatim>\<open>/\<close>, and a relative path has none.
\<close>

definition path_root :: "string \<Rightarrow> string" where
  "path_root p =
     (if starts_with ''//'' p \<and> \<not> starts_with ''///'' p then ''//''
      else if starts_with ''/'' p then ''/''
      else [])"

text \<open>\<^verbatim>\<open>str(path)\<close> of the path with the given root and components.\<close>

definition path_render :: "string \<Rightarrow> string list \<Rightarrow> string" where
  "path_render root parts =
     (if root = [] \<and> parts = [] then ''.''
      else root @ str_join ''/'' parts)"

text \<open>\<^verbatim>\<open>str(Path(p))\<close>.\<close>

definition path_str :: "string \<Rightarrow> string" where
  "path_str p = path_render (path_root p) (path_parts p)"

text \<open>\<^verbatim>\<open>str(Path(a) / b)\<close>: a right operand with a root replaces the left one.\<close>

definition path_join :: "string \<Rightarrow> string \<Rightarrow> string" where
  "path_join a b =
     (if path_root b \<noteq> [] then path_render (path_root b) (path_parts b)
      else path_render (path_root a) (path_parts a @ path_parts b))"

text \<open>\<^verbatim>\<open>str(Path(p).parent)\<close>: the last component is dropped, whatever it is.\<close>

definition path_parent :: "string \<Rightarrow> string" where
  "path_parent p = path_render (path_root p) (butlast (path_parts p))"

text \<open>\<^verbatim>\<open>Path(p).name\<close>: the final component, or the empty string when there is none.\<close>

definition path_name :: "string \<Rightarrow> string" where
  "path_name p = (case rev (path_parts p) of [] \<Rightarrow> [] | part # _ \<Rightarrow> part)"

text \<open>\<^verbatim>\<open>s.rfind(c)\<close>, with \<open>None\<close> for Python's \<open>-1\<close>.\<close>

fun rfind :: "char \<Rightarrow> string \<Rightarrow> nat option" where
  "rfind c [] = None"
| "rfind c (x # xs) =
     (case rfind c xs of
        Some i \<Rightarrow> Some (Suc i)
      | None \<Rightarrow> (if x = c then Some 0 else None))"

text \<open>
  \<^verbatim>\<open>Path(p).suffix\<close>: from the last dot of the name on, provided that dot is neither the
  first nor the last character of the name.
\<close>

definition path_suffix :: "string \<Rightarrow> string" where
  "path_suffix p =
     (let name = path_name p
      in case rfind CHR ''.'' name of
           None \<Rightarrow> []
         | Some i \<Rightarrow> (if 0 < i \<and> Suc i < length name then drop i name else []))"

text \<open>
  The file system as the handlers see it: which path strings name a regular file, with
  its contents, and which name a directory. Every operation that can raise
  \<^verbatim>\<open>OSError\<close> returns a sum.
\<close>

record file_system =
  files :: "string \<rightharpoonup> string"
  dirs :: "string set"

definition fs_exists :: "file_system \<Rightarrow> string \<Rightarrow> bool" where
  "fs_exists fs p = (files fs p \<noteq> None \<or> p \<in> dirs fs)"

definition fs_unlink :: "file_system \<Rightarrow> string \<Rightarrow> string + file_system" where
  "fs_unlink fs p =
     (if files fs p = None then Inl ''OSError''
      else Inr (fs\<lparr>files := (files fs)(p := None)\<rparr>))"

text \<open>\<^verbatim>\<open>rmdir\<close> fails on a directory that still has an entry.\<close>

definition fs_rmdir :: "file_system \<Rightarrow> string \<Rightarrow> string + file_system" where
  "fs_rmdir fs d =
     (if d \<notin> dirs fs then Inl ''NotADirectoryError''
      else if (\<exists>p \<in> dom (files fs) \<union> dirs fs. p \<noteq> d \<and> path_parent p = d)
        then Inl ''OSError''
      else Inr (fs\<lparr>dirs := dirs fs - {d}\<rparr>))"

section \<open>Text as code points\<close>

text \<open>
  \<^verbatim>\<open>str.strip\<close> and the regular expression of \<^verbatim>\<open>strip_emoji\<close> work on code points, so
  the UTF-8 bytes are decoded first. \<open>utf8_from n acc\<close> reads the \<open>n\<close> continuation bytes
  that are still due for the code point begun in \<open>acc\<close>. A byte that cannot start a
  sequence is kept as a value above the code points, so that encoding gives it back.
\<close>

fun utf8_from :: "nat \<Rightarrow> nat \<Rightarrow> string \<Rightarrow> nat list" where
  "utf8_from n acc [] = []"
| "utf8_from 0 acc (c # cs) =
     (let b = (of_char c :: nat)
      in if b < 128 then b # utf8_from 0 0 cs
         else if 192 \<le> b \<and> b < 224 then utf8_from 1 (b - 192) cs
         else if 224 \<le> b \<and> b < 240 then utf8_from 2 (b - 224) cs
         else if 240 \<le> b \<and> b < 248 then utf8_from 3 (b - 240) cs
         else (1114112 + b) # utf8_from 0 0 cs)"
| "utf8_from (Suc n) acc (c # cs) =
     (let acc' = acc * 64 + ((of_char c :: nat) - 128)
      in if n = 0 then acc' # utf8_from 0 0 cs else utf8_from n acc' cs)"

definition utf8_decode :: "string \<Rightarrow> nat list" where
  "utf8_decode s = utf8_from 0 0 s"

definition utf8_char :: "nat \<Rightarrow> string" where
  "utf8_char cp =
     (if cp < 128 then [char_of cp]
      else if cp < 2048 then [char_of (192 + cp div 64), char_of (128 + cp mod 64)]
      else if cp < 65536 then
        [char_of (224 + cp div 4096), char_of (128 + cp div 64 mod 64), char_of (128 + cp mod 64)]
      else if cp < 1114112 then
        [char_of (240 + cp div 262144), char_of (128 + cp div 4096 mod 64),
         char_of (128 + cp div 64 mod 64), char_of (128 + cp mod 64)]
      else [char_of (cp - 1114112)])"

definition utf8_encode :: "nat list \<Rightarrow> string" where
  "utf8_encode cps = concat (map utf8_char cps)"

text \<open>The code points for which \<^verbatim>\<open>str.isspace\<close> holds.\<close>

definition is_space :: "nat \<Rightarrow> bool" where
  "is_space cp =
     ((9 \<le> cp \<and> cp \<le> 13) \<or> (28 \<le> cp \<and> cp \<le> 32) \<or> cp = 133 \<or> cp = 160
      \<or> cp = 5760 \<or> (8192 \<le> cp \<and> cp \<le> 8202) \<or> cp = 8232 \<or> cp = 8233
      \<or> cp = 8239 \<or> cp = 8287 \<or> cp = 12288)"

text \<open>\<^verbatim>\<open>s.strip()\<close>.\<close>

definition str_strip :: "string \<Rightarrow> string" where
  "str_strip s =
     utf8_encode (rev (dropWhile is_space (rev (dropWhile is_space (utf8_decode s)))))"

section \<open>The session coordinator (app.py)\<close>

subsection \<open>Data\<close>

text \<open>
  One point of \<^verbatim>\<open>results["timeline"]\<close>: a dictionary in which each of the four keys
  that the code reads may be missing (reading a missing key raises \<^verbatim>\<open>KeyError\<close>).
\<close>

record 'n timeline_point =
  time :: "'n option"
  energy :: "'n option"
  emotion_raw :: "string option"
  category :: "string option"

text \<open>
  The dictionary \<^verbatim>\<open>stream_data\<close>, with the keys of lines 185 to 193. A missing
  \<^verbatim>\<open>is_fully_processed\<close> reads as false through \<^verbatim>\<open>.get\<close>.
\<close>

record 'n stream_cache =
  duration :: 'n
  timestamps :: "'n list"
  energy_timeline :: "'n list"
  emotion_series :: "string list"
  categories :: "string list"
  sample_rate :: nat
  is_fully_processed :: bool

text \<open>
  The result dictionary of the analysis services, typed by the data model of the
  specification: \<^verbatim>\<open>duration\<close>, \<^verbatim>\<open>timeline\<close> and \<^verbatim>\<open>summary\<close> are always present,
  \<^verbatim>\<open>clusters\<close> and \<^verbatim>\<open>suggestions\<close> are read with \<^verbatim>\<open>.get\<close> and may be absent. Such a
  dictionary is never empty, so Python's truth test on it succeeds.
\<close>

record 'n analysis_result =
  duration :: 'n
  timeline :: "'n timeline_point list"
  summary :: "'n summary_data"
  clusters :: "(string \<times> string) list option"
  suggestions :: "string option"

text \<open>
  One entry of \<^verbatim>\<open>active_sessions\<close>. The keys \<^verbatim>\<open>analysis\<close>, \<^verbatim>\<open>stream_data\<close> and
  \<^verbatim>\<open>error\<close> are absent until they are first stored.
\<close>

record 'n session =
  file_path :: string
  filename :: string
  status :: string
  analysis_complete :: bool
  analysis :: "'n analysis_result option"
  stream_data :: "'n stream_cache option"
  error :: "string option"

record 'n world =
  active_sessions :: "string \<rightharpoonup> 'n session"
  fs :: file_system

text \<open>
  An \<^verbatim>\<open>HTTPException\<close> with its status code and detail, or any other exception that
  leaves the handler (the framework answers it with status 500).
\<close>

datatype http_error = HTTPException nat string | Unhandled string

text \<open>
  What a call of \<^verbatim>\<open>analyze_meeting\<close> does besides reading and writing the session: it
  sleeps, and it calls the two analysis services.
\<close>

datatype effect =
    Sleep nat
  | BuildAnalysisFromStream string
  | AnalyzeFull string

text \<open>
  The document that \<^verbatim>\<open>generate_pdf_report\<close> hands to reportlab: paragraphs with one of
  the five paragraph styles, spacers with their height in hundredths of an inch, tables
  with their rows, and a page break. The four table styles and the column widths are
  fixed lists of constants; a table carries the name of its style only.
\<close>

datatype para_style = TitleStyle | Heading2Style | HeadingStyle | NormalStyle | FooterStyle

datatype table_style = InfoTable | SummaryTable | EmotionTable | TimelineTable

datatype flowable =
    Paragraph string para_style
  | Spacer nat
  | Table "string list list" table_style
  | PageBreak

text \<open>
  What the handlers call and this repository does not define; the model takes the
  results of these calls as given.
  \<^item> The analysis services. An exception they raise is the left summand, with
    \<^verbatim>\<open>str(e)\<close>. \<open>background\<close> is what the progressive streaming does to the shared
    \<^verbatim>\<open>stream_data\<close> dictionary during the \<open>k\<close>-th two-second sleep of the waiting loop.
  \<^item> reportlab. \<open>paragraph_error\<close> is the exception, if any, that the constructor
    \<^verbatim>\<open>Paragraph\<close> raises on a text whose markup it cannot parse. \<open>doc_build\<close> is
    \<^verbatim>\<open>SimpleDocTemplate.build\<close> with the bytes left in the buffer; reportlab reads the
    clock itself, so this function belongs to one call.
  \<^item> The float operations of the report: the formats \<^verbatim>\<open>:.1f\<close> and \<^verbatim>\<open>:.2f\<close>, and
    \<^verbatim>\<open>int(x // 60)\<close> and \<^verbatim>\<open>int(x % 60)\<close>.
  \<^item> \<open>str_lower\<close>: Python's \<^verbatim>\<open>str.lower\<close>.
  \<^item> The operating system calls of the upload and the PDF export:
    \<^verbatim>\<open>mkdir(parents=True, exist_ok=True)\<close> and \<^verbatim>\<open>open(path, 'wb')\<close> followed by
    \<^verbatim>\<open>write\<close>, with the exception they raise or the file system they leave.
\<close>

record 'n services =
  analyze_full :: "string \<Rightarrow> string + 'n analysis_result"
  build_analysis_from_stream :: "'n stream_cache \<Rightarrow> string \<Rightarrow> string + 'n analysis_result"
  initialize_stream :: "string \<Rightarrow> string + 'n stream_cache"
  background :: "nat \<Rightarrow> 'n stream_cache \<Rightarrow> 'n stream_cache"
  paragraph_error :: "string \<Rightarrow> string option"
  doc_build :: "flowable list \<Rightarrow> string + string"
  float_1f :: "'n \<Rightarrow> string"
  float_2f :: "'n \<Rightarrow> string"
  float_div_60 :: "'n \<Rightarrow> int"
  float_mod_60 :: "'n \<Rightarrow> int"
  str_lower :: "string \<Rightarrow> string"
  make_dirs :: "file_system \<Rightarrow> string \<Rightarrow> string + file_system"
  write_file :: "file_system \<Rightarrow> string \<Rightarrow> string \<Rightarrow> string + file_system"

subsection \<open>The report generator (modules/report\_generator.py)\<close>

text \<open>
  The fields that \<^verbatim>\<open>ReportGenerator.__init__\<close> sets. \<open>self_timestamp\<close> is the clock,
  read by \<^verbatim>\<open>datetime.now()\<close> when the generator is constructed and formatted as
  \<^verbatim>\<open>%Y-%m-%d %H:%M:%S\<close>; the model takes the formatted clock reading as an argument.
\<close>

record 'n report_generator =
  self_results :: "'n analysis_result"
  self_session_id :: string
  self_timestamp :: string

definition report_generator_init ::
  "string \<Rightarrow> 'n analysis_result \<Rightarrow> string \<Rightarrow> 'n report_generator" where
  "report_generator_init now results session_id =
     \<lparr>self_results = results, self_session_id = session_id, self_timestamp = now\<rparr>"

text \<open>The dictionary returned by \<^verbatim>\<open>generate_json_report\<close>.\<close>

record 'n json_metadata =
  metadata_session_id :: string
  metadata_generated :: string
  metadata_duration :: 'n

record 'n json_report =
  json_metadata :: "'n json_metadata"
  json_summary :: "'n summary_data"
  json_timeline :: "'n timeline_point list"
  json_clusters :: "(string \<times> string) list"
  json_suggestions :: string
  json_version :: string

definition generate_json_report :: "'n report_generator \<Rightarrow> 'n json_report" where
  "generate_json_report self =
     \<lparr>json_metadata =
        \<lparr>metadata_session_id = self_session_id self,
         metadata_generated = self_timestamp self,
         metadata_duration = duration (self_results self)\<rparr>,
      json_summary = summary (self_results self),
      json_timeline = timeline (self_results self),
      json_clusters = (case clusters (self_results self) of None \<Rightarrow> [] | Some c \<Rightarrow> c),
      json_suggestions = (case suggestions (self_results self) of None \<Rightarrow> [] | Some s \<Rightarrow> s),
      json_version = ''2.0.0''\<rparr>"

text \<open>
  \<^verbatim>\<open>toJson\<close> of the specification, as the export handler uses the class: construct the
  generator, which reads the clock, and generate the report.
\<close>

definition to_json :: "string \<Rightarrow> 'n analysis_result \<Rightarrow> string \<Rightarrow> 'n json_report" where
  "to_json now results session_id =
     generate_json_report (report_generator_init now results session_id)"

text \<open>Decimal digits of an integer, and the format \<^verbatim>\<open>:02d\<close>.\<close>

definition show_int :: "int \<Rightarrow> string" where
  "show_int i = (if i < 0 then ''-'' @ show_nat (nat (- i)) else show_nat (nat i))"

definition format_02d :: "int \<Rightarrow> string" where
  "format_02d i = (if 0 \<le> i \<and> i < 10 then ''0'' @ show_int i else show_int i)"

text \<open>\<^verbatim>\<open>format_time\<close>, lines 24 to 28.\<close>

definition format_time :: "'n services \<Rightarrow> 'n \<Rightarrow> string" where
  "format_time svc seconds =
     (let mins = float_div_60 svc seconds;
          secs = float_mod_60 svc seconds
      in show_int mins @ '':'' @ format_02d secs)"

text \<open>
  \<^verbatim>\<open>strip_emoji\<close>, lines 30 to 42: the code points of the six ranges of the pattern are
  removed, then the text is stripped.
\<close>

definition in_emoji_pattern :: "nat \<Rightarrow> bool" where
  "in_emoji_pattern cp =
     ((128512 \<le> cp \<and> cp \<le> 128591) \<or> (127744 \<le> cp \<and> cp \<le> 128511)
      \<or> (128640 \<le> cp \<and> cp \<le> 128767) \<or> (127456 \<le> cp \<and> cp \<le> 127487)
      \<or> (9986 \<le> cp \<and> cp \<le> 10160) \<or> (9410 \<le> cp \<and> cp \<le> 127569))"

definition strip_emoji :: "string \<Rightarrow> string" where
  "strip_emoji text =
     str_strip (utf8_encode (filter (\<lambda>cp. \<not> in_emoji_pattern cp) (utf8_decode text)))"

text \<open>
  Lines 179 to 185: the rows of the timeline table, one for every sixth point
  (\<^verbatim>\<open>range(0, len(timeline), 6)\<close>). A point that lacks \<^verbatim>\<open>time\<close>, \<^verbatim>\<open>category\<close> or
  \<^verbatim>\<open>energy\<close>, read in this order, raises \<^verbatim>\<open>KeyError\<close>.
\<close>

fun every_sixth :: "'a list \<Rightarrow> 'a list" where
  "every_sixth [] = []"
| "every_sixth (x # xs) = x # every_sixth (drop 5 xs)"

definition timeline_row :: "'n services \<Rightarrow> 'n timeline_point \<Rightarrow> string + string list" where
  "timeline_row svc point =
     (case time point of
        None \<Rightarrow> Inl (apostrophe @ ''time'' @ apostrophe)
      | Some t \<Rightarrow>
          (case category point of
             None \<Rightarrow> Inl (apostrophe @ ''category'' @ apostrophe)
           | Some cat \<Rightarrow>
               (case energy point of
                  None \<Rightarrow> Inl (apostrophe @ ''energy'' @ apostrophe)
                | Some e \<Rightarrow> Inr [format_time svc t, strip_emoji cat, float_1f svc e])))"

text \<open>A loop over a list in which each element may raise: the first exception ends it.\<close>

fun collect :: "('a \<Rightarrow> string + 'b) \<Rightarrow> 'a list \<Rightarrow> string + 'b list" where
  "collect f [] = Inr []"
| "collect f (x # xs) =
     (case f x of
        Inl e \<Rightarrow> Inl e
      | Inr y \<Rightarrow> (case collect f xs of Inl e \<Rightarrow> Inl e | Inr ys \<Rightarrow> Inr (y # ys)))"

text \<open>
  Lines 145 to 148: one paragraph and one spacer for each line that is not blank.
\<close>

definition insight_flowables :: "'n services \<Rightarrow> string \<Rightarrow> string + flowable list" where
  "insight_flowables svc line =
     (if str_strip line \<noteq> [] then
        (case paragraph_error svc line of
           Some e \<Rightarrow> Inl e
         | None \<Rightarrow> Inr [Paragraph line NormalStyle, Spacer 5])
      else Inr [])"

text \<open>
  The list \<^verbatim>\<open>story\<close> of \<^verbatim>\<open>generate_pdf_report\<close>, lines 55 to 220, or the exception
  raised while it is built.
\<close>

definition pdf_story :: "'n services \<Rightarrow> 'n report_generator \<Rightarrow> string + flowable list" where
  "pdf_story svc self =
     (let summary = summary (self_results self);
          timeline = timeline (self_results self);
          duration = duration (self_results self);
          suggestions = (case suggestions (self_results self) of
                           None \<Rightarrow> ''No insights available.'' | Some s \<Rightarrow> s);
          info_data =
            [[''Generated:'', self_timestamp self],
             [''Session ID:'', take 13 (self_session_id self) @ ''...''],
             [''Duration:'', format_time svc duration]];
          summary_data =
            [[''Metric'', ''Value''],
             [''Dominant Emotion'', dominant_emotion summary],
             [''Average Energy Level'', float_1f svc (avg_energy summary)],
             [''Silence Percentage'', float_1f svc (silence_pct summary) @ ''%''],
             [''Participation Rate'', float_1f svc (participation summary) @ ''%''],
             [''Emotional Volatility'', float_2f svc (volatility summary)],
             [''Psychological Safety'', psych_risk summary]];
          emotion_data =
            [''Emotion'', ''Percentage'']
              # map (\<lambda>(emotion, percentage). [emotion, float_1f svc percentage @ ''%''])
                    (distribution summary)
      in case collect (insight_flowables svc) (split_on CHR 0x0A suggestions) of
           Inl e \<Rightarrow> Inl e
         | Inr insights \<Rightarrow>
         case collect (timeline_row svc) (every_sixth timeline) of
           Inl e \<Rightarrow> Inl e
         | Inr rows \<Rightarrow>
             Inr ([Paragraph ''MOODFLO'' TitleStyle,
                   Paragraph ''Meeting Emotion Analysis Report'' Heading2Style,
                   Spacer 30,
                   Table info_data InfoTable,
                   Spacer 30,
                   Paragraph ''Executive Summary'' HeadingStyle,
                   Table summary_data SummaryTable,
                   Spacer 20,
                   Paragraph ''AI-Powered Insights and Recommendations'' HeadingStyle]
                  @ concat insights
                  @ [Spacer 20,
                     PageBreak,
                     Paragraph ''Emotion Distribution'' HeadingStyle,
                     Table emotion_data EmotionTable,
                     Spacer 30,
                     Paragraph ''Emotion Timeline - 30-second intervals'' HeadingStyle,
                     Table ([''Time'', ''Emotion'', ''Energy''] # rows) TimelineTable,
                     Spacer 30,
                     Spacer 50,
                     Paragraph ''This report is confidential and intended for internal use only.''
                       FooterStyle,
                     Paragraph ''Data processed locally - no information sent to external servers.''
                       FooterStyle]))"

text \<open>\<^verbatim>\<open>generate_pdf_report\<close>: the story is built and reportlab renders it.\<close>

definition generate_pdf_report :: "'n services \<Rightarrow> 'n report_generator \<Rightarrow> string + string" where
  "generate_pdf_report svc self =
     (case pdf_story svc self of
        Inl e \<Rightarrow> Inl e
      | Inr story \<Rightarrow> doc_build svc story)"

text \<open>
  \<^verbatim>\<open>toPdfBytes\<close> of the specification, as the export handler uses the class.
\<close>

definition to_pdf_bytes ::
  "'n services \<Rightarrow> string \<Rightarrow> 'n analysis_result \<Rightarrow> string \<Rightarrow> string + string" where
  "to_pdf_bytes svc now results session_id =
     generate_pdf_report svc (report_generator_init now results session_id)"

text \<open>The dictionaries and responses that the handlers return.\<close>

datatype 'n response =
    UploadResponse string string nat string
  | AnalysisResponse string string "'n analysis_result option"
  | StatusResponse string string string
  | FileResponse string string "string option"
  | MessageResponse string
  | JSONResponse "'n json_report" string

definition put_session :: "'n world \<Rightarrow> string \<Rightarrow> 'n session \<Rightarrow> 'n world" where
  "put_session w session_id session =
     w\<lparr>active_sessions := (active_sessions w)(session_id \<mapsto> session)\<rparr>"

subsection \<open>upload\_file\<close>

definition allowed_extensions :: "string list" where
  "allowed_extensions = [''.mp4'', ''.mp3'', ''.wav'', ''.avi'', ''.mov'', ''.mkv'']"

text \<open>
  \<open>session_id\<close> is the value of \<^verbatim>\<open>str(uuid.uuid4())\<close> and \<open>tmp\<close> that of
  \<^verbatim>\<open>tempfile.gettempdir()\<close>; \<open>name\<close> and \<open>content\<close> are \<^verbatim>\<open>file.filename\<close> and the bytes
  read from the upload.
\<close>

definition upload_file ::
  "'n services \<Rightarrow> string \<Rightarrow> string \<Rightarrow> string \<Rightarrow> string \<Rightarrow> 'n world
     \<Rightarrow> (http_error + 'n response) \<times> 'n world" where
  "upload_file svc session_id tmp name content w =
     (let file_ext = str_lower svc (path_suffix name)
      in if file_ext \<notin> set allowed_extensions then
           (Inl (HTTPException 400
              (''File type '' @ file_ext @ '' not supported. Allowed: ''
                 @ str_join '', '' allowed_extensions)), w)
         else
           let temp_dir = path_join (path_join tmp ''moodflo'') session_id
           in case make_dirs svc (fs w) temp_dir of
                Inl e \<Rightarrow> (Inl (Unhandled e), w)
              | Inr fs1 \<Rightarrow>
                  let path = path_join temp_dir name
                  in case write_file svc fs1 path content of
                       Inl e \<Rightarrow> (Inl (Unhandled e), w\<lparr>fs := fs1\<rparr>)
                     | Inr fs2 \<Rightarrow>
                         (Inr (UploadResponse session_id name (length content)
                                 ''File uploaded successfully''),
                          put_session (w\<lparr>fs := fs2\<rparr>) session_id
                            \<lparr>file_path = path, filename = name, status = ''uploaded'',
                             analysis_complete = False, analysis = None,
                             stream_data = None, error = None\<rparr>))"

subsection \<open>analyze\_meeting\<close>

text \<open>
  The waiting loop of lines 134 to 139, \<^verbatim>\<open>for _ in range(15)\<close>: \<open>n\<close> iterations are
  left, \<open>k\<close> sleeps have been made, \<open>sd\<close> is the current content of the shared
  dictionary. Each iteration reads the flag and either leaves the loop or sleeps two
  seconds, during which the progressive streaming may change the dictionary. The result is
  the number of sleeps and the content after the loop.
\<close>

fun wait_for_stream ::
  "(nat \<Rightarrow> 'n stream_cache \<Rightarrow> 'n stream_cache) \<Rightarrow> nat \<Rightarrow> nat \<Rightarrow> 'n stream_cache
     \<Rightarrow> nat \<times> 'n stream_cache" where
  "wait_for_stream bg 0 k sd = (k, sd)"
| "wait_for_stream bg (Suc n) k sd =
     (if is_fully_processed sd then (k, sd)
      else wait_for_stream bg n (Suc k) (bg k sd))"

text \<open>
  One of the list comprehensions of lines 180 to 183, \<^verbatim>\<open>[point[key] for point in
  timeline]\<close>: the first point without the key raises \<^verbatim>\<open>KeyError\<close>, whose text is the
  key in quotes.
\<close>

definition read_key ::
  "string \<Rightarrow> ('n timeline_point \<Rightarrow> 'a option) \<Rightarrow> 'n timeline_point \<Rightarrow> string + 'a" where
  "read_key key field point =
     (case field point of
        None \<Rightarrow> Inl (apostrophe @ key @ apostrophe)
      | Some v \<Rightarrow> Inr v)"

text \<open>
  Lines 177 to 193: the stream data synthesised from a finished analysis, or the
  exception raised on the way.
\<close>

definition stream_data_of_results :: "'n analysis_result \<Rightarrow> string + 'n stream_cache" where
  "stream_data_of_results results =
     (let points = timeline results
      in case collect (read_key ''time'' time) points of
           Inl e \<Rightarrow> Inl e
         | Inr ts \<Rightarrow>
         case collect (read_key ''energy'' energy) points of
           Inl e \<Rightarrow> Inl e
         | Inr es \<Rightarrow>
         case collect (read_key ''emotion_raw'' emotion_raw) points of
           Inl e \<Rightarrow> Inl e
         | Inr raws \<Rightarrow>
         case collect (read_key ''category'' category) points of
           Inl e \<Rightarrow> Inl e
         | Inr cats \<Rightarrow>
             Inr \<lparr>stream_cache.duration = duration results,
                  timestamps = ts,
                  energy_timeline = es,
                  emotion_series = raws,
                  categories = cats,
                  sample_rate = 16000,
                  is_fully_processed = True\<rparr>)"

text \<open>
  Lines 144 to 147, after \<^verbatim>\<open>build_analysis_from_stream\<close> has returned \<open>results\<close>.
\<close>

definition store_derived :: "'n session \<Rightarrow> 'n analysis_result \<Rightarrow> 'n session" where
  "store_derived session results =
     session\<lparr>analysis := Some results, analysis_complete := True, status := ''complete''\<rparr>"

text \<open>
  Lines 167 to 206, after \<^verbatim>\<open>analyze_full\<close> has returned or raised: the \<^verbatim>\<open>try\<close> block
  from the assignment of \<^verbatim>\<open>results\<close> on, and the \<^verbatim>\<open>except\<close> branch. The result is what
  the handler returns or raises, and the session as it leaves it. An exception raised
  while the stream data are built comes after the analysis has been stored and is
  caught by the same \<^verbatim>\<open>except\<close> branch.
\<close>

definition finish_full ::
  "string \<Rightarrow> 'n session \<Rightarrow> string + 'n analysis_result
     \<Rightarrow> (http_error + 'n response) \<times> 'n session" where
  "finish_full session_id session outcome =
     (case outcome of
        Inr results \<Rightarrow>
          let session1 = session\<lparr>analysis := Some results,
                                  analysis_complete := True,
                                  status := ''complete''\<rparr>
          in if stream_data session1 = None then
               (case stream_data_of_results results of
                  Inr sd \<Rightarrow>
                    (Inr (AnalysisResponse session_id ''complete'' (Some results)),
                     session1\<lparr>stream_data := Some sd\<rparr>)
                | Inl e \<Rightarrow>
                    (Inl (HTTPException 500 (''Analysis failed: '' @ e)),
                     session1\<lparr>status := ''error'', error := Some e\<rparr>))
             else
               (Inr (AnalysisResponse session_id ''complete'' (Some results)), session1)
      | Inl e \<Rightarrow>
          (Inl (HTTPException 500 (''Analysis failed: '' @ e)),
           session\<lparr>status := ''error'', error := Some e\<rparr>))"

text \<open>
  Lines 156 to 206: the full computation. \<open>eff\<close> are the effects so far.
\<close>

definition run_full_analysis ::
  "'n services \<Rightarrow> string \<Rightarrow> 'n session \<Rightarrow> 'n world \<Rightarrow> effect list
     \<Rightarrow> (http_error + 'n response) \<times> 'n world \<times> effect list" where
  "run_full_analysis svc session_id session w eff =
     (let path = file_path session
      in if \<not> fs_exists (fs w) path then
           (Inl (HTTPException 404 ''File not found''), w, eff)
         else
           let session1 = session\<lparr>status := ''analyzing''\<rparr>;
               (answer, session2) = finish_full session_id session1 (analyze_full svc path)
           in (answer, put_session w session_id session2, eff @ [AnalyzeFull path]))"

text \<open>
  \<^verbatim>\<open>analyze_meeting\<close>, run from its first line to its return without another request in
  between; only the progressive streaming changes the stream data during the sleeps.
  Overlapping requests are the subject of the step relation further down.
\<close>

definition analyze_meeting ::
  "'n services \<Rightarrow> string \<Rightarrow> 'n world
     \<Rightarrow> (http_error + 'n response) \<times> 'n world \<times> effect list" where
  "analyze_meeting svc session_id w =
     (case active_sessions w session_id of
        None \<Rightarrow> (Inl (HTTPException 404 ''Session not found''), w, [])
      | Some session \<Rightarrow>
          if analysis_complete session \<and> analysis session \<noteq> None then
            (Inr (AnalysisResponse session_id ''complete'' (analysis session)), w, [])
          else
            (case stream_data session of
               Some sd \<Rightarrow>
                 let (k, sd1) = wait_for_stream (background svc) 15 0 sd;
                     session1 = session\<lparr>stream_data := Some sd1\<rparr>;
                     w1 = put_session w session_id session1;
                     eff = replicate k (Sleep 2)
                 in if is_fully_processed sd1 then
                      (case build_analysis_from_stream svc sd1 (file_path session1) of
                         Inr results \<Rightarrow>
                           (Inr (AnalysisResponse session_id ''complete'' (Some results)),
                            put_session w1 session_id (store_derived session1 results),
                            eff @ [BuildAnalysisFromStream (file_path session1)])
                       | Inl e \<Rightarrow>
                           (Inl (Unhandled e), w1,
                            eff @ [BuildAnalysisFromStream (file_path session1)]))
                    else run_full_analysis svc session_id session1 w1 eff
             | None \<Rightarrow> run_full_analysis svc session_id session w []))"

subsection \<open>get\_analysis, get\_video, delete\_session\<close>

definition get_analysis :: "string \<Rightarrow> 'n world \<Rightarrow> (http_error + 'n response) \<times> 'n world" where
  "get_analysis session_id w =
     (case active_sessions w session_id of
        None \<Rightarrow> (Inl (HTTPException 404 ''Session not found''), w)
      | Some session \<Rightarrow>
          if \<not> analysis_complete session then
            (Inr (StatusResponse session_id (status session) ''Analysis not complete''), w)
          else
            (Inr (AnalysisResponse session_id ''complete'' (analysis session)), w))"

definition get_video :: "string \<Rightarrow> 'n world \<Rightarrow> (http_error + 'n response) \<times> 'n world" where
  "get_video session_id w =
     (case active_sessions w session_id of
        None \<Rightarrow> (Inl (HTTPException 404 ''Session not found''), w)
      | Some session \<Rightarrow>
          let path = file_path session
          in if \<not> fs_exists (fs w) path then
               (Inl (HTTPException 404 ''Video file not found''), w)
             else (Inr (FileResponse path ''video/mp4'' None), w))"

definition delete_session :: "string \<Rightarrow> 'n world \<Rightarrow> (http_error + 'n response) \<times> 'n world" where
  "delete_session session_id w =
     (case active_sessions w session_id of
        None \<Rightarrow> (Inl (HTTPException 404 ''Session not found''), w)
      | Some session \<Rightarrow>
          let path = path_str (file_path session);
              unlinked =
                (if fs_exists (fs w) path then fs_unlink (fs w) path else Inr (fs w))
          in case unlinked of
               Inl e \<Rightarrow> (Inl (Unhandled e), w)
             | Inr fs1 \<Rightarrow>
                 let temp_dir = path_parent path;
                     removed =
                       (if fs_exists fs1 temp_dir then fs_rmdir fs1 temp_dir else Inr fs1)
                 in case removed of
                      Inl e \<Rightarrow> (Inl (Unhandled e), w\<lparr>fs := fs1\<rparr>)
                    | Inr fs2 \<Rightarrow>
                        (Inr (MessageResponse ''Session deleted successfully''),
                         w\<lparr>fs := fs2,
                           active_sessions := (active_sessions w)(session_id := None)\<rparr>))"

subsection \<open>websocket\_stream\<close>

datatype 'n ws_message =
    WsError string
  | WsStatus string
  | WsReady 'n string

datatype connection = Closed | Serving

text \<open>
  The handler up to its receive loop: the messages it sends, whether the connection is
  then served or over, and the sessions. The receive loop itself only reads the stream
  data.
\<close>

definition websocket_stream ::
  "'n services \<Rightarrow> string \<Rightarrow> 'n world \<Rightarrow> 'n ws_message list \<times> connection \<times> 'n world" where
  "websocket_stream svc session_id w =
     (case active_sessions w session_id of
        None \<Rightarrow> ([WsError ''Session not found''], Closed, w)
      | Some session \<Rightarrow>
          (case stream_data session of
             None \<Rightarrow>
               (case initialize_stream svc (file_path session) of
                  Inr sd \<Rightarrow>
                    ([WsStatus ''Initializing real-time analysis...'',
                      WsReady (stream_cache.duration sd) ''Ready for streaming''],
                     Serving,
                     put_session w session_id (session\<lparr>stream_data := Some sd\<rparr>))
                | Inl e \<Rightarrow>
                    ([WsStatus ''Initializing real-time analysis...'',
                      WsError (''Streaming error: '' @ e)],
                     Closed, w))
           | Some sd \<Rightarrow>
               ([WsReady (stream_cache.duration sd) ''Ready for streaming''], Serving, w)))"

subsection \<open>export\_pdf, export\_json\<close>

text \<open>
  \<open>now\<close> is the clock reading of the generator, \<open>stamp\<close> the one formatted into the
  download name, \<open>tmp\<close> the temporary directory.
\<close>

definition export_json ::
  "string \<Rightarrow> string \<Rightarrow> string \<Rightarrow> 'n world \<Rightarrow> (http_error + 'n response) \<times> 'n world" where
  "export_json now stamp session_id w =
     (case active_sessions w session_id of
        None \<Rightarrow> (Inl (HTTPException 404 ''Session not found''), w)
      | Some session \<Rightarrow>
          if \<not> analysis_complete session then
            (Inl (HTTPException 400 ''Analysis not complete''), w)
          else
            (case analysis session of
               None \<Rightarrow> (Inl (Unhandled ''KeyError''), w)
             | Some results \<Rightarrow>
                 (Inr (JSONResponse (to_json now results session_id)
                         (''attachment; filename=moodflo_report_'' @ stamp @ ''.json'')),
                  w)))"

definition export_pdf ::
  "'n services \<Rightarrow> string \<Rightarrow> string \<Rightarrow> string \<Rightarrow> string \<Rightarrow> 'n world
     \<Rightarrow> (http_error + 'n response) \<times> 'n world" where
  "export_pdf svc now stamp tmp session_id w =
     (case active_sessions w session_id of
        None \<Rightarrow> (Inl (HTTPException 404 ''Session not found''), w)
      | Some session \<Rightarrow>
          if \<not> analysis_complete session then
            (Inl (HTTPException 400 ''Analysis not complete''), w)
          else
            (case analysis session of
               None \<Rightarrow> (Inl (Unhandled ''KeyError''), w)
             | Some results \<Rightarrow>
                 (case to_pdf_bytes svc now results session_id of
                    Inl e \<Rightarrow> (Inl (Unhandled e), w)
                  | Inr pdf \<Rightarrow>
                      let temp_file =
                            path_join tmp (''moodflo_report_'' @ take 8 session_id @ ''.pdf'')
                      in case write_file svc (fs w) temp_file pdf of
                           Inl e \<Rightarrow> (Inl (Unhandled e), w)
                         | Inr fs1 \<Rightarrow>
                             (Inr (FileResponse temp_file ''application/pdf''
                                     (Some (''moodflo_report_'' @ stamp @ ''.pdf''))),
                              w\<lparr>fs := fs1\<rparr>))))"

subsection \<open>Overlapping requests\<close>

text \<open>
  The server handles requests as coroutines: a handler runs until an \<^verbatim>\<open>await\<close> and is
  resumed later, and other handlers run in between. \<^verbatim>\<open>analyze_meeting\<close> is suspended
  in the sleep of its waiting loop (after \<open>k\<close> earlier sleeps), in
  \<^verbatim>\<open>build_analysis_from_stream\<close> and in \<^verbatim>\<open>analyze_full\<close>; \<^verbatim>\<open>websocket_stream\<close> is
  suspended in \<^verbatim>\<open>initialize_stream\<close>. A suspended handler holds the session dictionary
  it looked up when it started.
\<close>

datatype suspended =
    Polling string nat
  | Building string
  | Analyzing string
  | Initializing string

fun suspended_id :: "suspended \<Rightarrow> string" where
  "suspended_id (Polling session_id k) = session_id"
| "suspended_id (Building session_id) = session_id"
| "suspended_id (Analyzing session_id) = session_id"
| "suspended_id (Initializing session_id) = session_id"

text \<open>
  When the entry of a session id is deleted or replaced, the handlers suspended on it
  keep writing to the dictionary they hold, which is no longer in the session map:
  they have no further effect on the state and are dropped.
\<close>

definition drop_suspended :: "string \<Rightarrow> suspended multiset \<Rightarrow> suspended multiset" where
  "drop_suspended session_id P = filter_mset (\<lambda>r. suspended_id r \<noteq> session_id) P"

text \<open>
  \<open>running w P\<close>: the server can be in state \<open>w\<close> with the handlers \<open>P\<close> suspended.
  The steps are:
  \<^item> the handlers run from their first line to their return, as defined above;
  \<^item> changes of the files by other processes, and of the stream data by the
    progressive streaming;
  \<^item> the pieces of \<^verbatim>\<open>analyze_meeting\<close> and \<^verbatim>\<open>websocket_stream\<close> between two
    \<^verbatim>\<open>await\<close> points, each run on the state it finds when it is resumed. In the
    waiting loop the flag is read from the stream data dictionary the handler holds,
    which the progressive streaming changes, so either reading is possible.

  A suspended handler that raises, or returns without writing to the session, leaves
  the state as it is; it needs no step of its own.
\<close>

inductive running :: "'n world \<Rightarrow> suspended multiset \<Rightarrow> bool" where
  boot: "running \<lparr>active_sessions = Map.empty, fs = fs0\<rparr> {#}"
| files_change: "running w P \<Longrightarrow> running (w\<lparr>fs := f\<rparr>) P"
| progress:
    "running w P \<Longrightarrow> active_sessions w session_id = Some session
       \<Longrightarrow> stream_data session = Some sd
       \<Longrightarrow> running (put_session w session_id (session\<lparr>stream_data := Some sd'\<rparr>)) P"
| upload:
    "running w P \<Longrightarrow> upload_file svc session_id tmp name content w = (answer, w')
       \<Longrightarrow> running w' (if isl answer then P else drop_suspended session_id P)"
| analyze: "running w P \<Longrightarrow> running (fst (snd (analyze_meeting svc session_id w))) P"
| stream: "running w P \<Longrightarrow> running (snd (snd (websocket_stream svc session_id w))) P"
| delete:
    "running w P \<Longrightarrow> delete_session session_id w = (answer, w')
       \<Longrightarrow> running w' (if isl answer then P else drop_suspended session_id P)"
| pdf: "running w P \<Longrightarrow> running (snd (export_pdf svc now stamp tmp session_id w)) P"
| enter_wait:
    "running w P \<Longrightarrow> active_sessions w session_id = Some session
       \<Longrightarrow> \<not> (analysis_complete session \<and> analysis session \<noteq> None)
       \<Longrightarrow> stream_data session \<noteq> None
       \<Longrightarrow> running w (add_mset (Polling session_id 0) P)"
| poll_sleep:
    "running w (add_mset (Polling session_id k) P) \<Longrightarrow> k < 15
       \<Longrightarrow> running w (add_mset (Polling session_id (Suc k)) P)"
| poll_ready:
    "running w (add_mset (Polling session_id k) P) \<Longrightarrow> k \<le> 15
       \<Longrightarrow> running w (add_mset (Building session_id) P)"
| poll_timeout:
    "running w (add_mset (Polling session_id 15) P)
       \<Longrightarrow> active_sessions w session_id = Some session
       \<Longrightarrow> fs_exists (fs w) (file_path session)
       \<Longrightarrow> running (put_session w session_id (session\<lparr>status := ''analyzing''\<rparr>))
             (add_mset (Analyzing session_id) P)"
| enter_full:
    "running w P \<Longrightarrow> active_sessions w session_id = Some session
       \<Longrightarrow> \<not> (analysis_complete session \<and> analysis session \<noteq> None)
       \<Longrightarrow> stream_data session = None
       \<Longrightarrow> fs_exists (fs w) (file_path session)
       \<Longrightarrow> running (put_session w session_id (session\<lparr>status := ''analyzing''\<rparr>))
             (add_mset (Analyzing session_id) P)"
| build_done:
    "running w (add_mset (Building session_id) P)
       \<Longrightarrow> active_sessions w session_id = Some session
       \<Longrightarrow> running (put_session w session_id (store_derived session results)) P"
| full_done:
    "running w (add_mset (Analyzing session_id) P)
       \<Longrightarrow> active_sessions w session_id = Some session
       \<Longrightarrow> running (put_session w session_id (snd (finish_full session_id session outcome))) P"
| enter_init:
    "running w P \<Longrightarrow> active_sessions w session_id = Some session
       \<Longrightarrow> stream_data session = None
       \<Longrightarrow> running w (add_mset (Initializing session_id) P)"
| init_done:
    "running w (add_mset (Initializing session_id) P)
       \<Longrightarrow> active_sessions w session_id = Some session
       \<Longrightarrow> running (put_session w session_id (session\<lparr>stream_data := Some sd\<rparr>)) P"

text \<open>The states of the server.\<close>

definition reachable :: "'n world \<Rightarrow> bool" where
  "reachable w = (\<exists>P. running w P)"

subsection \<open>Observations on a run\<close>

text \<open>
  A session holds an analysis exactly when its completion flag is set.
\<close>

definition session_inv :: "'n session \<Rightarrow> bool" where
  "session_inv s = (analysis s \<noteq> None \<longleftrightarrow> analysis_complete s)"

definition world_inv :: "'n world \<Rightarrow> bool" where
  "world_inv w = (\<forall>session_id s. active_sessions w session_id = Some s \<longrightarrow> session_inv s)"

text \<open>The calls of the full analysis among the effects of a run.\<close>

fun is_full_computation :: "effect \<Rightarrow> bool" where
  "is_full_computation (AnalyzeFull path) = True"
| "is_full_computation (BuildAnalysisFromStream path) = False"
| "is_full_computation (Sleep seconds) = False"

definition full_computations :: "effect list \<Rightarrow> nat" where
  "full_computations eff = length (filter is_full_computation eff)"

text \<open>
  The content of the shared stream data after \<open>k\<close> sleeps of the waiting loop, and the
  lengths of the sleeps among the effects of a run.
\<close>

primrec stream_after ::
  "(nat \<Rightarrow> 'n stream_cache \<Rightarrow> 'n stream_cache) \<Rightarrow> nat \<Rightarrow> 'n stream_cache \<Rightarrow> 'n stream_cache" where
  "stream_after bg 0 sd = sd"
| "stream_after bg (Suc k) sd = bg k (stream_after bg k sd)"

fun sleeps :: "effect list \<Rightarrow> nat list" where
  "sleeps [] = []"
| "sleeps (Sleep seconds # eff) = seconds # sleeps eff"
| "sleeps (BuildAnalysisFromStream path # eff) = sleeps eff"
| "sleeps (AnalyzeFull path # eff) = sleeps eff"

subsection \<open>Deriving the analysis from the stream data\<close>

text \<open>
  The samples of the specification's stream cache: the four parallel lists of
  \<^verbatim>\<open>stream_data\<close> read as one sequence of (time, energy level, raw emotion label,
  category), and the timeline point with the fields of a sample.
\<close>

definition samples :: "'n stream_cache \<Rightarrow> ('n \<times> 'n \<times> string \<times> string) list" where
  "samples sd =
     zip (timestamps sd) (zip (energy_timeline sd) (zip (emotion_series sd) (categories sd)))"

definition point_of_sample :: "'n \<times> 'n \<times> string \<times> string \<Rightarrow> 'n timeline_point" where
  "point_of_sample sample =
     (case sample of (t, e, raw, cat) \<Rightarrow>
        \<lparr>time = Some t, energy = Some e, emotion_raw = Some raw, category = Some cat\<rparr>)"

text \<open>
  Modelled from the spec: \<^verbatim>\<open>build_analysis_from_stream\<close> of
  \<^verbatim>\<open>services/realtime_service.py\<close>, which \<^verbatim>\<open>app.py\<close> imports and which is not among the
  sources. By the specification it derives the analysis result from the stream cache by
  a transformation that does not call the timeline producer again: the duration is that
  of the stream cache, the timeline is the samples of the stream cache projected field
  for field, and summary and suggestions are the aggregate metrics and the insight text,
  here two parameters.
\<close>

definition spec_build_analysis_from_stream ::
  "('n stream_cache \<Rightarrow> 'n summary_data) \<Rightarrow> ('n summary_data \<Rightarrow> string)
     \<Rightarrow> 'n stream_cache \<Rightarrow> string \<Rightarrow> string + 'n analysis_result" where
  "spec_build_analysis_from_stream aggregate insights sd path =
     Inr \<lparr>duration = stream_cache.duration sd,
          timeline = map point_of_sample (samples sd),
          summary = aggregate sd,
          clusters = None,
          suggestions = Some (insights (aggregate sd))\<rparr>"

subsection \<open>Example states\<close>

text \<open>
  An operating system and a lowercasing for the examples. The operating system takes
  every path string as it is written, and the lowercasing changes the letters A to Z
  only. On the examples, whose paths are normalised, without a \<^verbatim>\<open>..\<close> component, and
  whose names are ASCII, this is what a POSIX system and \<^verbatim>\<open>str.lower\<close> do.
  \<open>path_ancestors n d\<close> is the path \<open>d\<close> followed by its first \<open>n\<close> ancestors; the
  directory and all its ancestors exist after \<^verbatim>\<open>mkdir(parents=True, exist_ok=True)\<close>.
\<close>

primrec path_ancestors :: "nat \<Rightarrow> string \<Rightarrow> string list" where
  "path_ancestors 0 d = [d]"
| "path_ancestors (Suc n) d = d # path_ancestors n (path_parent d)"

definition example_mkdir :: "file_system \<Rightarrow> string \<Rightarrow> string + file_system" where
  "example_mkdir disk d =
     (let ancestors = path_ancestors (length (path_parts d)) d
      in if \<exists>a \<in> set ancestors. files disk a \<noteq> None then Inl ''FileExistsError''
         else Inr (disk\<lparr>dirs := dirs disk \<union> set ancestors\<rparr>))"

definition example_write :: "file_system \<Rightarrow> string \<Rightarrow> string \<Rightarrow> string + file_system" where
  "example_write disk p content =
     (if p \<in> dirs disk then Inl ''IsADirectoryError''
      else if path_parent p \<notin> dirs disk then Inl ''FileNotFoundError''
      else Inr (disk\<lparr>files := (files disk)(p \<mapsto> content)\<rparr>))"

definition example_lower :: "string \<Rightarrow> string" where
  "example_lower s =
     map (\<lambda>c. case map_of (zip ''ABCDEFGHIJKLMNOPQRSTUVWXYZ'' ''abcdefghijklmnopqrstuvwxyz'') c of
                 Some l \<Rightarrow> l
               | None \<Rightarrow> c) s"

text \<open>A server without sessions, whose directory for the uploads exists and is empty.\<close>

definition empty_world :: "int world" where
  "empty_world =
     \<lparr>active_sessions = Map.empty,
      fs = \<lparr>files = Map.empty, dirs = {''/'', ''/tmp'', ''/tmp/moodflo''}\<rparr>\<rparr>"

text \<open>The session and the state after one upload into the empty server.\<close>

definition uploaded_session :: "int session" where
  "uploaded_session =
     \<lparr>file_path = ''/tmp/moodflo/s1/Meeting.MP4'', filename = ''Meeting.MP4'',
      status = ''uploaded'', analysis_complete = False, analysis = None,
      stream_data = None, error = None\<rparr>"

definition uploaded_world :: "int world" where
  "uploaded_world =
     \<lparr>active_sessions = [''s1'' \<mapsto> uploaded_session],
      fs = \<lparr>files = [''/tmp/moodflo/s1/Meeting.MP4'' \<mapsto> ''abc''],
            dirs = {''/'', ''/tmp'', ''/tmp/moodflo'', ''/tmp/moodflo/s1''}\<rparr>\<rparr>"

text \<open>
  A finished analysis, the stream data of the same recording, and services that return
  them or fail. Numbers are counts of tenths.
\<close>

definition example_result :: "int analysis_result" where
  "example_result =
     \<lparr>duration = 100,
      timeline =
        [\<lparr>time = Some 0, energy = Some 612, emotion_raw = Some ''angry'',
          category = Some (fire @ '' Stressed/Tense'')\<rparr>,
         \<lparr>time = Some 50, energy = Some 580, emotion_raw = Some ''fear'',
          category = Some (fire @ '' Stressed/Tense'')\<rparr>],
      summary = example_summary,
      clusters = None,
      suggestions = Some (fallback_suggestions fmt_tenths example_summary)\<rparr>"

definition example_stream :: "int stream_cache" where
  "example_stream =
     \<lparr>stream_cache.duration = 100, timestamps = [0, 50], energy_timeline = [612, 580],
      emotion_series = [''angry'', ''fear''],
      categories = [fire @ '' Stressed/Tense'', fire @ '' Stressed/Tense''],
      sample_rate = 16000, is_fully_processed = False\<rparr>"

definition working_services :: "int services" where
  "working_services =
     \<lparr>analyze_full = (\<lambda>path. Inr example_result),
      build_analysis_from_stream = (\<lambda>sd path. Inr example_result),
      initialize_stream = (\<lambda>path. Inr example_stream),
      background = (\<lambda>k sd. sd),
      paragraph_error = (\<lambda>text. None),
      doc_build = (\<lambda>story. Inr ''%PDF''),
      float_1f = fmt_tenths,
      float_2f = (\<lambda>t. fmt_tenths t @ ''0''),
      float_div_60 = (\<lambda>t. t div 600),
      float_mod_60 = (\<lambda>t. t div 10 mod 60),
      str_lower = example_lower,
      make_dirs = example_mkdir,
      write_file = example_write\<rparr>"

definition failing_services :: "int services" where
  "failing_services = working_services\<lparr>analyze_full := (\<lambda>path. Inl ''decode error'')\<rparr>"

text \<open>The session and the state after a successful analysis of the uploaded file.\<close>

definition analyzed_session :: "int session" where
  "analyzed_session =
     uploaded_session\<lparr>status := ''complete'', analysis_complete := True,
       analysis := Some example_result,
       stream_data := Some (example_stream\<lparr>is_fully_processed := True\<rparr>)\<rparr>"

definition analyzed_world :: "int world" where
  "analyzed_world = put_session uploaded_world ''s1'' analyzed_session"

text \<open>The session and the state after an analysis of the uploaded file has failed.\<close>

definition errored_session :: "int session" where
  "errored_session = uploaded_session\<lparr>status := ''error'', error := Some ''decode error''\<rparr>"

definition errored_world :: "int world" where
  "errored_world = put_session uploaded_world ''s1'' errored_session"

text \<open>
  Two overlapping analyses of the uploaded file: the first has stored its result, then
  the second one has failed.
\<close>

definition overlapped_session :: "int session" where
  "overlapped_session = analyzed_session\<lparr>status := ''error'', error := Some ''decode error''\<rparr>"

definition overlapped_world :: "int world" where
  "overlapped_world = put_session uploaded_world ''s1'' overlapped_session"

text \<open>
  A result whose second timeline point has no raw emotion label, services that return
  it, and the session after the analysis of the uploaded file with them.
\<close>

definition partial_result :: "int analysis_result" where
  "partial_result =
     example_result\<lparr>timeline :=
       [\<lparr>time = Some 0, energy = Some 612, emotion_raw = Some ''angry'',
         category = Some (fire @ '' Stressed/Tense'')\<rparr>,
        \<lparr>time = Some 50, energy = Some 580, emotion_raw = None,
         category = Some (fire @ '' Stressed/Tense'')\<rparr>]\<rparr>"

definition partial_services :: "int services" where
  "partial_services = working_services\<lparr>analyze_full := (\<lambda>path. Inr partial_result)\<rparr>"

definition half_stored_session :: "int session" where
  "half_stored_session =
     uploaded_session\<lparr>status := ''error'', analysis_complete := True,
       analysis := Some partial_result,
       error := Some (apostrophe @ ''emotion_raw'' @ apostrophe)\<rparr>"

text \<open>Services whose progressive streaming finishes during the third sleep.\<close>

definition finishing_services :: "int services" where
  "finishing_services =
     working_services\<lparr>background :=
       (\<lambda>k sd. if k = 2 then sd\<lparr>is_fully_processed := True\<rparr> else sd)\<rparr>"

text \<open>The state in which the uploaded session has started streaming.\<close>

definition streaming_session :: "int session" where
  "streaming_session = uploaded_session\<lparr>stream_data := Some example_stream\<rparr>"

definition streaming_world :: "int world" where
  "streaming_world = put_session uploaded_world ''s1'' streaming_session"

text \<open>The uploaded session with finished stream data, and services that derive from it.\<close>

definition ready_session :: "int session" where
  "ready_session =
     uploaded_session\<lparr>stream_data := Some (example_stream\<lparr>is_fully_processed := True\<rparr>)\<rparr>"

definition ready_world :: "int world" where
  "ready_world = put_session uploaded_world ''s1'' ready_session"

definition deriving_services :: "int services" where
  "deriving_services =
     working_services\<lparr>build_analysis_from_stream :=
       spec_build_analysis_from_stream (\<lambda>sd. example_summary) (fallback_suggestions fmt_tenths)\<rparr>"

text \<open>
  A full analysis with a coarser timeline than the stream, and the streaming session
  after that analysis was stored on a timeout and the stream has finished later.
\<close>

definition coarse_result :: "int analysis_result" where
  "coarse_result =
     example_result\<lparr>timeline :=
       [\<lparr>time = Some 0, energy = Some 596, emotion_raw = Some ''angry'',
         category = Some (fire @ '' Stressed/Tense'')\<rparr>]\<rparr>"

definition coarse_services :: "int services" where
  "coarse_services = working_services\<lparr>analyze_full := (\<lambda>path. Inr coarse_result)\<rparr>"

definition late_stream_session :: "int session" where
  "late_stream_session =
     uploaded_session\<lparr>status := ''complete'', analysis_complete := True,
       analysis := Some coarse_result,
       stream_data := Some (example_stream\<lparr>is_fully_processed := True\<rparr>)\<rparr>"

definition late_stream_world :: "int world" where
  "late_stream_world = put_session uploaded_world ''s1'' late_stream_session"

section \<open>Properties of the classifier\<close>

lemma category_branch_first_match: "category_branch dominant = first_match dominant"
  by (simp add: category_branch_def first_match_def category_rules_def)

lemma fallback_structure:
  "fallback_suggestions fmt1 data =
     fst (category_branch (dominant_emotion data)) @ recommendations_label
       @ str_join nl (take 5 (snd (category_branch (dominant_emotion data)))) @ risk_annex fmt1 data"
  by (simp add: fallback_suggestions_def risk_annex_def Let_def split: prod.splits)

lemma category_lines:
  "length (snd (category_branch dominant)) = (if named_category dominant then 5 else 4)"
  by (simp add: category_branch_def named_category_def category_rules_def
      energised_suggestions_def stressed_suggestions_def flat_suggestions_def
      thoughtful_suggestions_def volatile_suggestions_def default_suggestions_def)

text \<open>
  Claim C5. The category is chosen by substring containment on the dominant emotion,
  the patterns being tested in the order energised, stressed/tense, flat/disengaged,
  thoughtful/constructive, volatile/unstable, default: the branch the code takes is the
  first entry of the ordered table that matches. In particular a text containing
  "Energised" gets the energised category whatever else it contains, and the header and
  the suggestion lines of the returned text are those of that first match.
\<close>

theorem category_selection_first_match:
  "category_branch dominant = first_match dominant
   \<and> (str_contains ''Energised'' dominant \<longrightarrow>
        category_branch dominant = (energised_header, energised_suggestions))
   \<and> (\<exists>annex. fallback_suggestions fmt1 data =
         fst (first_match (dominant_emotion data)) @ recommendations_label
           @ str_join nl (take 5 (snd (first_match (dominant_emotion data)))) @ annex)"
proof (intro conjI)
  show "category_branch dominant = first_match dominant"
    by (rule category_branch_first_match)
  show "str_contains ''Energised'' dominant \<longrightarrow>
        category_branch dominant = (energised_header, energised_suggestions)"
    by (simp add: category_branch_def)
  show "\<exists>annex. fallback_suggestions fmt1 data =
         fst (first_match (dominant_emotion data)) @ recommendations_label
           @ str_join nl (take 5 (snd (first_match (dominant_emotion data)))) @ annex"
    using fallback_structure [of fmt1 data] by (simp add: category_branch_first_match)
qed

theorem category_selection_first_match_witness:
  "str_contains ''Energised'' ''Energised and Stressed''
   \<and> str_contains ''Stressed'' ''Energised and Stressed''
   \<and> first_match ''Energised and Stressed'' = (energised_header, energised_suggestions)"
proof -
  have e: "str_contains ''Energised'' ''Energised and Stressed''"
    by simp
  have s: "str_contains ''Stressed'' ''Energised and Stressed''"
    by simp
  from category_selection_first_match
    [of "''Energised and Stressed''" fmt_tenths example_summary] e
  have "first_match ''Energised and Stressed'' = (energised_header, energised_suggestions)"
    by metis
  with e s show ?thesis
    by blast
qed

text \<open>
  Claim C6, as stated, fails for the default category: its list has four suggestions,
  so the returned text carries four recommendation lines, not five.
\<close>

theorem five_lines_counterexample:
  "fallback_suggestions fmt_tenths neutral_summary =
     default_header @ recommendations_label @ str_join nl default_suggestions @ low_risk_line
   \<and> take 5 (snd (category_branch (dominant_emotion neutral_summary))) = default_suggestions
   \<and> length default_suggestions = 4
   \<and> length (take 5 (snd (category_branch (dominant_emotion neutral_summary)))) \<noteq> 5"
  by (simp add: fallback_suggestions_def neutral_summary_def category_branch_def
      default_suggestions_def)

text \<open>
  Claim C6, amended. For every summary record the returned text is non-empty and is the
  category header, the RECOMMENDATIONS label, the suggestion lines of the matched
  category joined by newlines, and the risk annex chosen by the risk tier (High,
  Medium, anything else). Keeping the first five lines keeps all of them: five for each
  of the five named categories, four for the default category.
\<close>

theorem fallback_output_structure:
  "fallback_suggestions fmt1 data \<noteq> []
   \<and> fallback_suggestions fmt1 data =
       fst (category_branch (dominant_emotion data)) @ recommendations_label
         @ str_join nl (take 5 (snd (category_branch (dominant_emotion data))))
         @ risk_annex fmt1 data
   \<and> take 5 (snd (category_branch (dominant_emotion data)))
       = snd (category_branch (dominant_emotion data))
   \<and> length (snd (category_branch (dominant_emotion data)))
       = (if named_category (dominant_emotion data) then 5 else 4)"
proof (intro conjI)
  show "fallback_suggestions fmt1 data \<noteq> []"
    by (simp add: fallback_structure recommendations_label_def nl_def)
  show "fallback_suggestions fmt1 data =
       fst (category_branch (dominant_emotion data)) @ recommendations_label
         @ str_join nl (take 5 (snd (category_branch (dominant_emotion data))))
         @ risk_annex fmt1 data"
    by (rule fallback_structure)
  show "take 5 (snd (category_branch (dominant_emotion data)))
       = snd (category_branch (dominant_emotion data))"
    by (simp add: category_lines)
  show "length (snd (category_branch (dominant_emotion data)))
       = (if named_category (dominant_emotion data) then 5 else 4)"
    by (rule category_lines)
qed

theorem fallback_output_structure_witness:
  "named_category (dominant_emotion example_summary)
   \<and> psych_risk example_summary = ''High''
   \<and> length (snd (category_branch (dominant_emotion example_summary))) = 5
   \<and> fallback_suggestions fmt_tenths example_summary =
       stressed_header @ recommendations_label @ str_join nl stressed_suggestions
         @ psych_section fmt_tenths example_summary"
  using fallback_output_structure [of fmt_tenths example_summary]
  by (simp add: example_summary_def named_category_def category_rules_def fire_def
      category_branch_def risk_annex_def stressed_suggestions_def)

text \<open>
  Claim C10. An upload whose lowercased file name extension is not one of .mp4, .mp3,
  .wav, .avi, .mov, .mkv is answered with HTTP error 400 and leaves the state as it
  was. An upload that returns a response had an allowed extension, and its session
  starts with status "uploaded", the analysis not complete, and neither an analysis nor
  stream data; the other sessions are untouched. An upload that fails in any other way
  creates no session either. This holds whatever \<^verbatim>\<open>str.lower\<close> and the operating
  system do.
\<close>

theorem upload_extension_check:
  "(str_lower svc (path_suffix name) \<notin> set allowed_extensions \<longrightarrow>
      upload_file svc session_id tmp name content w =
        (Inl (HTTPException 400
           (''File type '' @ str_lower svc (path_suffix name) @ '' not supported. Allowed: ''
              @ str_join '', '' allowed_extensions)), w))
   \<and> (\<forall>r w'. upload_file svc session_id tmp name content w = (Inr r, w') \<longrightarrow>
         str_lower svc (path_suffix name) \<in> set allowed_extensions
         \<and> r = UploadResponse session_id name (length content) ''File uploaded successfully''
         \<and> active_sessions w' session_id =
             Some \<lparr>file_path = path_join (path_join (path_join tmp ''moodflo'') session_id) name,
                   filename = name, status = ''uploaded'', analysis_complete = False,
                   analysis = None, stream_data = None, error = None\<rparr>
         \<and> (\<forall>other. other \<noteq> session_id \<longrightarrow> active_sessions w' other = active_sessions w other))
   \<and> (\<forall>e w'. upload_file svc session_id tmp name content w = (Inl e, w') \<longrightarrow>
         active_sessions w' = active_sessions w)
   \<and> set allowed_extensions = {''.mp4'', ''.mp3'', ''.wav'', ''.avi'', ''.mov'', ''.mkv''}"
  by (auto simp: upload_file_def Let_def put_session_def allowed_extensions_def
      split: sum.splits if_splits)

section \<open>Properties of the session coordinator\<close>

lemmas path_defs = path_suffix_def path_name_def path_parts_def path_join_def path_parent_def
  path_root_def path_render_def path_str_def

lemma example_lower_mp4: "example_lower ''.MP4'' = ''.mp4''"
  by (simp add: example_lower_def)

lemma example_lower_txt: "example_lower ''.txt'' = ''.txt''"
  by (simp add: example_lower_def)

lemma suffix_meeting: "path_suffix ''Meeting.MP4'' = ''.MP4''"
  by (simp add: path_defs)

lemma suffix_notes: "path_suffix ''notes.txt'' = ''.txt''"
  by (simp add: path_defs)

lemma upload_dir: "path_join (path_join ''/tmp'' ''moodflo'') ''s1'' = ''/tmp/moodflo/s1''"
  by (simp add: path_defs)

lemma upload_path: "path_join ''/tmp/moodflo/s1'' ''Meeting.MP4'' = ''/tmp/moodflo/s1/Meeting.MP4''"
  by (simp add: path_defs)

lemma upload_ancestors:
  "path_ancestors (length (path_parts ''/tmp/moodflo/s1'')) ''/tmp/moodflo/s1''
     = [''/tmp/moodflo/s1'', ''/tmp/moodflo'', ''/tmp'', ''/'']"
  by (simp add: path_defs numeral_3_eq_3)

lemma upload_parent: "path_parent ''/tmp/moodflo/s1/Meeting.MP4'' = ''/tmp/moodflo/s1''"
  by (simp add: path_defs)

lemma upload_mkdir:
  "example_mkdir \<lparr>files = Map.empty, dirs = {''/'', ''/tmp'', ''/tmp/moodflo''}\<rparr>
       ''/tmp/moodflo/s1'' =
     Inr \<lparr>files = Map.empty, dirs = {''/'', ''/tmp'', ''/tmp/moodflo'', ''/tmp/moodflo/s1''}\<rparr>"
  by (auto simp: example_mkdir_def upload_ancestors Let_def)

lemma upload_write:
  "example_write \<lparr>files = Map.empty, dirs = {''/'', ''/tmp'', ''/tmp/moodflo'', ''/tmp/moodflo/s1''}\<rparr>
       ''/tmp/moodflo/s1/Meeting.MP4'' ''abc'' =
     Inr \<lparr>files = [''/tmp/moodflo/s1/Meeting.MP4'' \<mapsto> ''abc''],
          dirs = {''/'', ''/tmp'', ''/tmp/moodflo'', ''/tmp/moodflo/s1''}\<rparr>"
  by (simp add: example_write_def upload_parent)

lemma upload_example:
  "upload_file working_services ''s1'' ''/tmp'' ''Meeting.MP4'' ''abc'' empty_world =
     (Inr (UploadResponse ''s1'' ''Meeting.MP4'' 3 ''File uploaded successfully''), uploaded_world)"
  by (simp add: upload_file_def working_services_def suffix_meeting example_lower_mp4
      allowed_extensions_def upload_dir upload_path upload_mkdir upload_write
      put_session_def uploaded_world_def uploaded_session_def empty_world_def Let_def)

theorem upload_extension_check_witness:
  "upload_file working_services ''s1'' ''/tmp'' ''Meeting.MP4'' ''abc'' empty_world =
     (Inr (UploadResponse ''s1'' ''Meeting.MP4'' 3 ''File uploaded successfully''), uploaded_world)
   \<and> str_lower working_services (path_suffix ''Meeting.MP4'') \<in> set allowed_extensions
   \<and> active_sessions uploaded_world ''s1'' = Some uploaded_session
   \<and> str_lower working_services (path_suffix ''notes.txt'') \<notin> set allowed_extensions
   \<and> fst (upload_file working_services ''s1'' ''/tmp'' ''notes.txt'' ''abc'' empty_world)
       = Inl (HTTPException 400
           ''File type .txt not supported. Allowed: .mp4, .mp3, .wav, .avi, .mov, .mkv'')"
proof -
  note t1 = upload_extension_check
    [of working_services "''Meeting.MP4''" "''s1''" "''/tmp''" "''abc''" empty_world]
  note t2 = upload_extension_check
    [of working_services "''notes.txt''" "''s1''" "''/tmp''" "''abc''" empty_world]
  have low: "str_lower working_services (path_suffix ''notes.txt'') = ''.txt''"
    by (simp add: working_services_def suffix_notes example_lower_txt)
  have bad: "str_lower working_services (path_suffix ''notes.txt'') \<notin> set allowed_extensions"
    by (simp add: low allowed_extensions_def)
  from t1 upload_example
  have a: "str_lower working_services (path_suffix ''Meeting.MP4'') \<in> set allowed_extensions"
    by blast
  have b: "active_sessions uploaded_world ''s1'' = Some uploaded_session"
    by (simp add: uploaded_world_def)
  from t2 bad
  have "upload_file working_services ''s1'' ''/tmp'' ''notes.txt'' ''abc'' empty_world =
          (Inl (HTTPException 400
           (''File type '' @ str_lower working_services (path_suffix ''notes.txt'')
              @ '' not supported. Allowed: '' @ str_join '', '' allowed_extensions)), empty_world)"
    by blast
  then have c: "fst (upload_file working_services ''s1'' ''/tmp'' ''notes.txt'' ''abc'' empty_world)
       = Inl (HTTPException 400
           ''File type .txt not supported. Allowed: .mp4, .mp3, .wav, .avi, .mov, .mkv'')"
    by (simp add: low allowed_extensions_def)
  from upload_example a b bad c show ?thesis
    by blast
qed

lemma delete_example:
  "delete_session ''s1'' uploaded_world =
     (Inr (MessageResponse ''Session deleted successfully''), empty_world)"
  by (auto simp: delete_session_def uploaded_world_def uploaded_session_def empty_world_def
      path_defs fs_exists_def fs_unlink_def fs_rmdir_def Let_def)



lemma put_session_same:
  "active_sessions w session_id = Some session \<Longrightarrow> put_session w session_id session = w"
  by (simp add: put_session_def fun_upd_idem)

lemma put_session_lookup [simp]:
  "active_sessions (put_session w session_id session) session_id = Some session"
  by (simp add: put_session_def)

lemma put_session_fs [simp]: "fs (put_session w session_id session) = fs w"
  by (simp add: put_session_def)

lemma put_session_twice [simp]:
  "put_session (put_session w session_id s1) session_id s2 = put_session w session_id s2"
  by (simp add: put_session_def)

lemma finish_full_error:
  "finish_full session_id session (Inl e) =
     (Inl (HTTPException 500 (''Analysis failed: '' @ e)),
      session\<lparr>status := ''error'', error := Some e\<rparr>)"
  by (simp add: finish_full_def)

lemma finish_full_returns:
  assumes "finish_full session_id session outcome = (Inr resp, session')"
  shows "\<exists>results. outcome = Inr results
           \<and> resp = AnalysisResponse session_id ''complete'' (Some results)
           \<and> analysis session' = Some results \<and> analysis_complete session'
           \<and> status session' = ''complete'' \<and> stream_data session' \<noteq> None
           \<and> file_path session' = file_path session \<and> error session' = error session"
  using assms
  by (auto simp: finish_full_def Let_def split: sum.splits if_splits)

lemma finish_full_raises:
  assumes "finish_full session_id session (Inr results) = (Inl e, session')"
  shows "\<exists>msg. stream_data session = None \<and> stream_data_of_results results = Inl msg
           \<and> e = HTTPException 500 (''Analysis failed: '' @ msg)
           \<and> session' = session\<lparr>analysis := Some results, analysis_complete := True,
                                   status := ''error'', error := Some msg\<rparr>"
  using assms
  by (auto simp: finish_full_def Let_def split: sum.splits if_splits)

lemma finish_full_fields:
  "file_path (snd (finish_full session_id session outcome)) = file_path session
   \<and> filename (snd (finish_full session_id session outcome)) = filename session"
  by (auto simp: finish_full_def Let_def split: sum.splits)

lemma finish_full_inv:
  "session_inv session \<Longrightarrow> session_inv (snd (finish_full session_id session outcome))"
  by (auto simp: finish_full_def Let_def session_inv_def split: sum.splits)

lemma run_full_cases:
  "run_full_analysis svc session_id session w eff =
     (if \<not> fs_exists (fs w) (file_path session) then
        (Inl (HTTPException 404 ''File not found''), w, eff)
      else
        (fst (finish_full session_id (session\<lparr>status := ''analyzing''\<rparr>)
                (analyze_full svc (file_path session))),
         put_session w session_id
           (snd (finish_full session_id (session\<lparr>status := ''analyzing''\<rparr>)
                   (analyze_full svc (file_path session)))),
         eff @ [AnalyzeFull (file_path session)]))"
  by (simp add: run_full_analysis_def Let_def case_prod_beta)

lemma world_inv_put:
  "world_inv w \<Longrightarrow> session_inv s \<Longrightarrow> world_inv (put_session w session_id s)"
  by (simp add: world_inv_def put_session_def)

lemma world_inv_fs: "world_inv (w\<lparr>fs := f\<rparr>) = world_inv w"
  by (simp add: world_inv_def)

lemma world_inv_get:
  "world_inv w \<Longrightarrow> active_sessions w session_id = Some s \<Longrightarrow> session_inv s"
  by (auto simp: world_inv_def)

lemma run_full_inv:
  assumes "world_inv w" and "session_inv session"
  shows "world_inv (fst (snd (run_full_analysis svc session_id session w eff)))"
proof -
  have "session_inv (session\<lparr>status := ''analyzing''\<rparr>)"
    using assms(2) by (simp add: session_inv_def)
  then have "session_inv (snd (finish_full session_id (session\<lparr>status := ''analyzing''\<rparr>)
                                (analyze_full svc (file_path session))))"
    by (rule finish_full_inv)
  with assms(1) show ?thesis
    by (simp add: run_full_cases world_inv_put)
qed

lemma analyze_cached:
  assumes "active_sessions w session_id = Some session"
    and "analysis_complete session" and "analysis session = Some r"
  shows "analyze_meeting svc session_id w =
           (Inr (AnalysisResponse session_id ''complete'' (Some r)), w, [])"
  using assms by (simp add: analyze_meeting_def)

lemma analyze_no_stream:
  assumes "active_sessions w session_id = Some session"
    and "\<not> (analysis_complete session \<and> analysis session \<noteq> None)"
    and "stream_data session = None"
  shows "analyze_meeting svc session_id w = run_full_analysis svc session_id session w []"
  using assms by (auto simp: analyze_meeting_def)

lemma analyze_stream_ready:
  assumes "active_sessions w session_id = Some session"
    and "\<not> (analysis_complete session \<and> analysis session \<noteq> None)"
    and "stream_data session = Some sd"
    and "wait_for_stream (background svc) 15 0 sd = (k, sd1)"
    and "is_fully_processed sd1"
  shows "analyze_meeting svc session_id w =
     (case build_analysis_from_stream svc sd1 (file_path session) of
        Inr results \<Rightarrow>
          (Inr (AnalysisResponse session_id ''complete'' (Some results)),
           put_session w session_id
             (session\<lparr>stream_data := Some sd1, analysis := Some results,
                       analysis_complete := True, status := ''complete''\<rparr>),
           replicate k (Sleep 2) @ [BuildAnalysisFromStream (file_path session)])
      | Inl e \<Rightarrow>
          (Inl (Unhandled e), put_session w session_id (session\<lparr>stream_data := Some sd1\<rparr>),
           replicate k (Sleep 2) @ [BuildAnalysisFromStream (file_path session)]))"
  using assms
  by (auto simp: analyze_meeting_def store_derived_def put_session_def Let_def
      split: sum.splits)

lemma analyze_stream_timeout:
  assumes "active_sessions w session_id = Some session"
    and "\<not> (analysis_complete session \<and> analysis session \<noteq> None)"
    and "stream_data session = Some sd"
    and "wait_for_stream (background svc) 15 0 sd = (k, sd1)"
    and "\<not> is_fully_processed sd1"
  shows "analyze_meeting svc session_id w =
     run_full_analysis svc session_id (session\<lparr>stream_data := Some sd1\<rparr>)
       (put_session w session_id (session\<lparr>stream_data := Some sd1\<rparr>))
       (replicate k (Sleep 2))"
  using assms by (auto simp: analyze_meeting_def Let_def)

lemma analyze_miss_cases:
  assumes sess: "active_sessions w session_id = Some session"
    and miss: "\<not> (analysis_complete session \<and> analysis session \<noteq> None)"
  shows "(\<exists>sd sd1 k. stream_data session = Some sd
            \<and> wait_for_stream (background svc) 15 0 sd = (k, sd1)
            \<and> is_fully_processed sd1)
       \<or> (\<exists>s1 k. (s1 = session \<or> (\<exists>sd1. s1 = session\<lparr>stream_data := Some sd1\<rparr>))
            \<and> analyze_meeting svc session_id w =
                 run_full_analysis svc session_id s1 (put_session w session_id s1)
                   (replicate k (Sleep 2)))"
proof (cases "stream_data session")
  case None
  have "analyze_meeting svc session_id w =
         run_full_analysis svc session_id session (put_session w session_id session)
           (replicate 0 (Sleep 2))"
    using analyze_no_stream [OF sess miss None] put_session_same [OF sess] by simp
  then show ?thesis
    by blast
next
  case (Some sd)
  obtain k sd1 where wl: "wait_for_stream (background svc) 15 0 sd = (k, sd1)"
    by (cases "wait_for_stream (background svc) 15 0 sd")
  show ?thesis
  proof (cases "is_fully_processed sd1")
    case True
    then show ?thesis using Some wl by blast
  next
    case False
    from analyze_stream_timeout [OF sess miss Some wl False] show ?thesis
      by blast
  qed
qed

lemma analyze_inv:
  assumes "world_inv w"
  shows "world_inv (fst (snd (analyze_meeting svc session_id w)))"
proof (cases "active_sessions w session_id")
  case None
  then show ?thesis using assms by (simp add: analyze_meeting_def)
next
  case (Some session)
  note sess = this
  then have si: "session_inv session" using assms world_inv_get by blast
  show ?thesis
  proof (cases "analysis_complete session \<and> analysis session \<noteq> None")
    case True
    then show ?thesis using assms sess by (simp add: analyze_meeting_def)
  next
    case False
    from analyze_miss_cases [OF sess False, of svc]
    consider (derived) sd sd1 k where
        "stream_data session = Some sd" "wait_for_stream (background svc) 15 0 sd = (k, sd1)"
        "is_fully_processed sd1"
      | (full) s1 k where
        "s1 = session \<or> (\<exists>sd1. s1 = session\<lparr>stream_data := Some sd1\<rparr>)"
        "analyze_meeting svc session_id w =
           run_full_analysis svc session_id s1 (put_session w session_id s1)
             (replicate k (Sleep 2))"
      by blast
    then show ?thesis
    proof cases
      case (derived sd sd1 k)
      have "session_inv (session\<lparr>stream_data := Some sd1\<rparr>)"
        using si by (simp add: session_inv_def)
      moreover have "session_inv (session\<lparr>stream_data := Some sd1, analysis := Some r,
                       analysis_complete := True, status := ''complete''\<rparr>)" for r
        by (simp add: session_inv_def)
      ultimately show ?thesis
        using analyze_stream_ready [OF sess False derived] assms
        by (auto simp: world_inv_put split: sum.splits)
    next
      case (full s1 k)
      have i1: "session_inv s1"
        using full(1) si by (auto simp: session_inv_def)
      have "world_inv (put_session w session_id s1)"
        using assms i1 by (rule world_inv_put)
      then show ?thesis
        using full(2) run_full_inv i1 by simp
    qed
  qed
qed

lemma upload_inv:
  "world_inv w \<Longrightarrow> world_inv (snd (upload_file svc session_id tmp name content w))"
  by (auto simp: upload_file_def Let_def world_inv_fs session_inv_def intro!: world_inv_put
      split: sum.splits)

lemma stream_inv: "world_inv w \<Longrightarrow> world_inv (snd (snd (websocket_stream svc session_id w)))"
  by (auto simp: websocket_stream_def session_inv_def dest: world_inv_get intro!: world_inv_put
      split: option.splits sum.splits)

lemma delete_inv: "world_inv w \<Longrightarrow> world_inv (snd (delete_session session_id w))"
  by (auto simp: delete_session_def Let_def world_inv_def split: option.splits sum.splits if_splits)

lemma pdf_inv: "world_inv w \<Longrightarrow> world_inv (snd (export_pdf svc now stamp tmp session_id w))"
  by (auto simp: export_pdf_def Let_def world_inv_fs split: option.splits sum.splits)

lemma session_inv_stream:
  "session_inv s \<Longrightarrow> session_inv (s\<lparr>stream_data := x\<rparr>)"
  by (simp add: session_inv_def)

lemma session_inv_status:
  "session_inv s \<Longrightarrow> session_inv (s\<lparr>status := x\<rparr>)"
  by (simp add: session_inv_def)

lemma session_inv_derived: "session_inv (store_derived s results)"
  by (simp add: session_inv_def store_derived_def)

lemma running_inv: "running w P \<Longrightarrow> world_inv w"
proof (induction rule: running.induct)
  case (boot fs0)
  then show ?case by (simp add: world_inv_def)
next
  case (files_change w P f)
  then show ?case by (simp add: world_inv_fs)
next
  case (progress w P session_id session sd sd')
  then show ?case
    using world_inv_get session_inv_stream world_inv_put by blast
next
  case (upload w P svc session_id tmp name content answer w')
  from upload_inv [OF upload.IH, of svc session_id tmp name content] upload.hyps(2)
  show ?case by simp
next
  case (analyze w P svc session_id)
  then show ?case by (simp add: analyze_inv)
next
  case (stream w P svc session_id)
  then show ?case by (simp add: stream_inv)
next
  case (delete w P session_id answer w')
  from delete_inv [OF delete.IH, of session_id] delete.hyps(2)
  show ?case by simp
next
  case (pdf w P svc now stamp tmp session_id)
  then show ?case by (simp add: pdf_inv)
next
  case (enter_wait w P session_id session)
  then show ?case by simp
next
  case (poll_sleep w session_id k P)
  then show ?case by simp
next
  case (poll_ready w session_id k P)
  then show ?case by simp
next
  case (poll_timeout w session_id P session)
  then show ?case
    using world_inv_get session_inv_status world_inv_put by blast
next
  case (enter_full w P session_id session)
  then show ?case
    using world_inv_get session_inv_status world_inv_put by blast
next
  case (build_done w session_id P session results)
  then show ?case
    using session_inv_derived world_inv_put by blast
next
  case (full_done w session_id P session outcome)
  then show ?case
    using world_inv_get finish_full_inv world_inv_put by blast
next
  case (enter_init w P session_id session)
  then show ?case by simp
next
  case (init_done w session_id P session sd)
  then show ?case
    using world_inv_get session_inv_stream world_inv_put by blast
qed

lemma reachable_inv: "reachable w \<Longrightarrow> world_inv w"
  using running_inv by (auto simp: reachable_def)

lemma running_empty: "running empty_world {#}"
  unfolding empty_world_def by (rule running.boot)

lemma running_uploaded: "running uploaded_world {#}"
proof -
  from running.upload [OF running_empty upload_example]
  show ?thesis by (simp add: drop_suspended_def)
qed

lemma reachable_uploaded: "reachable uploaded_world"
  using running_uploaded by (auto simp: reachable_def)

lemma uploaded_lookup: "active_sessions uploaded_world ''s1'' = Some uploaded_session"
  by (simp add: uploaded_world_def)

lemma uploaded_exists: "fs_exists (fs uploaded_world) ''/tmp/moodflo/s1/Meeting.MP4''"
  by (simp add: uploaded_world_def fs_exists_def)

lemma example_stream_data:
  "stream_data_of_results example_result = Inr (example_stream\<lparr>is_fully_processed := True\<rparr>)"
  by (simp add: stream_data_of_results_def example_result_def example_stream_def read_key_def
      Let_def)

lemma analyze_example:
  "analyze_meeting working_services ''s1'' uploaded_world =
     (Inr (AnalysisResponse ''s1'' ''complete'' (Some example_result)), analyzed_world,
      [AnalyzeFull ''/tmp/moodflo/s1/Meeting.MP4''])"
proof -
  have p: "file_path uploaded_session = ''/tmp/moodflo/s1/Meeting.MP4''"
    and n: "stream_data uploaded_session = None"
    and m: "\<not> (analysis_complete uploaded_session \<and> analysis uploaded_session \<noteq> None)"
    by (simp_all add: uploaded_session_def)
  have f: "analyze_full working_services ''/tmp/moodflo/s1/Meeting.MP4'' = Inr example_result"
    by (simp add: working_services_def)
  have "finish_full ''s1'' (uploaded_session\<lparr>status := ''analyzing''\<rparr>) (Inr example_result) =
          (Inr (AnalysisResponse ''s1'' ''complete'' (Some example_result)), analyzed_session)"
    by (simp add: finish_full_def example_stream_data analyzed_session_def uploaded_session_def
        Let_def)
  then show ?thesis
    using analyze_no_stream [OF uploaded_lookup m n, of working_services] uploaded_exists
    by (simp add: run_full_cases p f analyzed_world_def)
qed

lemma reachable_analyzed: "reachable analyzed_world"
proof -
  have "running (fst (snd (analyze_meeting working_services ''s1'' uploaded_world))) {#}"
    using running_uploaded by (rule running.analyze)
  then show ?thesis
    by (auto simp: analyze_example reachable_def)
qed

section \<open>Repeated and failing analyses\<close>

lemma full_computations_sleeps [simp]: "full_computations (replicate k (Sleep 2)) = 0"
  by (induction k) (simp_all add: full_computations_def)

lemma full_computations_append [simp]:
  "full_computations (xs @ ys) = full_computations xs + full_computations ys"
  by (simp add: full_computations_def)

lemma full_computations_simps [simp]:
  "full_computations [] = 0"
  "full_computations [AnalyzeFull path] = 1"
  "full_computations [BuildAnalysisFromStream path] = 0"
  by (simp_all add: full_computations_def)

lemma failing_example:
  "analyze_meeting failing_services ''s1'' uploaded_world =
     (Inl (HTTPException 500 ''Analysis failed: decode error''), errored_world,
      [AnalyzeFull ''/tmp/moodflo/s1/Meeting.MP4''])"
proof -
  have p: "file_path uploaded_session = ''/tmp/moodflo/s1/Meeting.MP4''"
    and n: "stream_data uploaded_session = None"
    and m: "\<not> (analysis_complete uploaded_session \<and> analysis uploaded_session \<noteq> None)"
    by (simp_all add: uploaded_session_def)
  have f: "analyze_full failing_services ''/tmp/moodflo/s1/Meeting.MP4'' = Inl ''decode error''"
    by (simp add: failing_services_def working_services_def)
  show ?thesis
    using analyze_no_stream [OF uploaded_lookup m n, of failing_services] uploaded_exists
    by (simp add: run_full_cases p f finish_full_error errored_world_def errored_session_def)
qed

lemma failing_again:
  "analyze_meeting failing_services ''s1'' errored_world =
     (Inl (HTTPException 500 ''Analysis failed: decode error''), errored_world,
      [AnalyzeFull ''/tmp/moodflo/s1/Meeting.MP4''])"
proof -
  have l: "active_sessions errored_world ''s1'' = Some errored_session"
    by (simp add: errored_world_def)
  have p: "file_path errored_session = ''/tmp/moodflo/s1/Meeting.MP4''"
    and n: "stream_data errored_session = None"
    and m: "\<not> (analysis_complete errored_session \<and> analysis errored_session \<noteq> None)"
    by (simp_all add: errored_session_def uploaded_session_def)
  have f: "analyze_full failing_services ''/tmp/moodflo/s1/Meeting.MP4'' = Inl ''decode error''"
    by (simp add: failing_services_def working_services_def)
  have e: "fs_exists (fs errored_world) ''/tmp/moodflo/s1/Meeting.MP4''"
    using uploaded_exists by (simp add: errored_world_def)
  have s: "errored_session\<lparr>status := ''error'', error := Some ''decode error''\<rparr>
             = errored_session"
    by (simp add: errored_session_def)
  have "put_session errored_world ''s1'' errored_session = errored_world"
    using l by (rule put_session_same)
  then show ?thesis
    using analyze_no_stream [OF l m n, of failing_services] e
    by (simp add: run_full_cases p f finish_full_error s)
qed

text \<open>
  Claim C1, as stated, fails when the first call fails: no analysis is stored, the
  second call is not answered from a cache, and the full analysis runs once in each
  call, twice in total.
\<close>

theorem analyze_twice_counterexample:
  "fst (analyze_meeting failing_services ''s1'' uploaded_world)
     = Inl (HTTPException 500 ''Analysis failed: decode error'')
   \<and> fst (snd (analyze_meeting failing_services ''s1'' uploaded_world)) = errored_world
   \<and> fst (analyze_meeting failing_services ''s1'' errored_world)
     = Inl (HTTPException 500 ''Analysis failed: decode error'')
   \<and> full_computations
        (snd (snd (analyze_meeting failing_services ''s1'' uploaded_world))
           @ snd (snd (analyze_meeting failing_services ''s1'' errored_world))) = 2"
  by (simp add: failing_example failing_again full_computations_def)

text \<open>
  Claim C1, amended. Once a session holds an analysis with the completion flag set,
  every call of \<^verbatim>\<open>analyze_meeting\<close> returns the stored result, changes nothing and calls
  no service. So if a first call returns a result, a second call, whatever the services
  would do, returns the same response and leaves the state as the first call left it,
  and the two calls together run the full analysis at most once.
\<close>

theorem analyze_again_returns_cached:
  "(active_sessions w session_id = Some session \<and> analysis_complete session
      \<and> analysis session = Some results
      \<longrightarrow> analyze_meeting svc session_id w =
            (Inr (AnalysisResponse session_id ''complete'' (Some results)), w, []))
   \<and> (analyze_meeting svc session_id w0 = (Inr resp, w1, eff1)
      \<longrightarrow> analyze_meeting svc' session_id w1 = (Inr resp, w1, [])
          \<and> full_computations (eff1 @ snd (snd (analyze_meeting svc' session_id w1))) \<le> 1)"
proof (rule conjI; rule impI)
  assume "active_sessions w session_id = Some session \<and> analysis_complete session
      \<and> analysis session = Some results"
  then show "analyze_meeting svc session_id w =
            (Inr (AnalysisResponse session_id ''complete'' (Some results)), w, [])"
    using analyze_cached by blast
next
  assume run: "analyze_meeting svc session_id w0 = (Inr resp, w1, eff1)"
  then obtain s where sess: "active_sessions w0 session_id = Some s"
    by (cases "active_sessions w0 session_id") (auto simp: analyze_meeting_def)
  have "analyze_meeting svc' session_id w1 = (Inr resp, w1, []) \<and> full_computations eff1 \<le> 1"
  proof (cases "analysis_complete s \<and> analysis s \<noteq> None")
    case True
    then obtain r where r: "analysis s = Some r" by auto
    from analyze_cached [OF sess _ r] True run
    have "resp = AnalysisResponse session_id ''complete'' (Some r)" "w1 = w0" "eff1 = []"
      by auto
    then show ?thesis
      using analyze_cached [OF sess _ r] True by simp
  next
    case False
    from analyze_miss_cases [OF sess False, of svc]
    consider (derived) sd sd1 k where
        "stream_data s = Some sd" "wait_for_stream (background svc) 15 0 sd = (k, sd1)"
        "is_fully_processed sd1"
      | (full) s1 k where
        "s1 = s \<or> (\<exists>sd1. s1 = s\<lparr>stream_data := Some sd1\<rparr>)"
        "analyze_meeting svc session_id w0 =
           run_full_analysis svc session_id s1 (put_session w0 session_id s1)
             (replicate k (Sleep 2))"
      by blast
    then show ?thesis
    proof cases
      case (derived sd sd1 k)
      from analyze_stream_ready [OF sess False derived] run
      obtain r where
        "resp = AnalysisResponse session_id ''complete'' (Some r)"
        "w1 = put_session w0 session_id
               (s\<lparr>stream_data := Some sd1, analysis := Some r,
                    analysis_complete := True, status := ''complete''\<rparr>)"
        "eff1 = replicate k (Sleep 2) @ [BuildAnalysisFromStream (file_path s)]"
        by (auto split: sum.splits)
      then show ?thesis
        by (simp add: analyze_cached)
    next
      case (full s1 k)
      let ?fin = "finish_full session_id (s1\<lparr>status := ''analyzing''\<rparr>)
                    (analyze_full svc (file_path s1))"
      from full(2) run
      have ex: "fs_exists (fs w0) (file_path s1)"
        by (auto simp: run_full_cases split: if_splits)
      with full(2) run
      have a: "fst ?fin = Inr resp" and b: "w1 = put_session w0 session_id (snd ?fin)"
        and c: "eff1 = replicate k (Sleep 2) @ [AnalyzeFull (file_path s1)]"
        by (simp_all add: run_full_cases)
      from a have "?fin = (Inr resp, snd ?fin)"
        by (metis prod.collapse)
      from finish_full_returns [OF this]
      obtain r where
        "resp = AnalysisResponse session_id ''complete'' (Some r)"
        "analysis (snd ?fin) = Some r" "analysis_complete (snd ?fin)"
        by blast
      with b c show ?thesis
        by (simp add: analyze_cached)
    qed
  qed
  then show "analyze_meeting svc' session_id w1 = (Inr resp, w1, [])
          \<and> full_computations (eff1 @ snd (snd (analyze_meeting svc' session_id w1))) \<le> 1"
    by simp
qed

theorem analyze_again_returns_cached_witness:
  "analyze_meeting working_services ''s1'' uploaded_world =
     (Inr (AnalysisResponse ''s1'' ''complete'' (Some example_result)), analyzed_world,
      [AnalyzeFull ''/tmp/moodflo/s1/Meeting.MP4''])
   \<and> active_sessions analyzed_world ''s1'' = Some analyzed_session
   \<and> analysis_complete analyzed_session \<and> analysis analyzed_session = Some example_result
   \<and> analyze_meeting failing_services ''s1'' analyzed_world =
       (Inr (AnalysisResponse ''s1'' ''complete'' (Some example_result)), analyzed_world, [])"
proof -
  note t = analyze_again_returns_cached
    [of analyzed_world "''s1''" analyzed_session example_result
        working_services uploaded_world
        "AnalysisResponse ''s1'' ''complete'' (Some example_result)" analyzed_world
        "[AnalyzeFull ''/tmp/moodflo/s1/Meeting.MP4'']" failing_services]
  have a: "active_sessions analyzed_world ''s1'' = Some analyzed_session"
    by (simp add: analyzed_world_def)
  have b: "analysis_complete analyzed_session \<and> analysis analyzed_session = Some example_result"
    by (simp add: analyzed_session_def)
  from t analyze_example a b show ?thesis
    by simp
qed

lemma delete_outcome_put:
  assumes "active_sessions w session_id = Some session"
    and "file_path s' = file_path session"
  shows "fst (delete_session session_id (put_session w session_id s'))
           = fst (delete_session session_id w)
       \<and> fst (delete_session session_id w) \<noteq> Inl (HTTPException 404 ''Session not found'')
       \<and> (\<forall>r u. delete_session session_id (put_session w session_id s') = (Inr r, u)
             \<longrightarrow> active_sessions u session_id = None)"
  using assms
  by (auto simp: delete_session_def put_session_def Let_def split: sum.splits)

text \<open>
  Claim C7. When a call of \<^verbatim>\<open>analyze_meeting\<close> in a reachable state runs the full
  analysis and the analysis fails with a message, the caller gets HTTP error 500 with
  that message, and afterwards the session is still in the session map, with status
  "error" and the message stored; the files are untouched; \<^verbatim>\<open>get_analysis\<close> reports
  the status "error"; and \<^verbatim>\<open>delete_session\<close> finds the session and has the outcome it
  would have had before the failed call, removing the record when it succeeds. The
  reachable states include those reached with overlapping requests. A call that is
  resumed after its full analysis has failed, whatever other requests have done to the
  session in between, raises the same error and leaves the session with status "error"
  and the message, and with the file path, the analysis and the stream data it found.
\<close>

theorem producer_failure_keeps_session:
  assumes "reachable w"
    and "analyze_meeting svc session_id w = (out, w', eff)"
    and "AnalyzeFull path \<in> set eff"
    and "analyze_full svc path = Inl msg"
  shows "out = Inl (HTTPException 500 (''Analysis failed: '' @ msg))
    \<and> (\<exists>s'. active_sessions w' session_id = Some s' \<and> status s' = ''error''
           \<and> error s' = Some msg \<and> analysis s' = None)
    \<and> fs w' = fs w
    \<and> get_analysis session_id w' =
         (Inr (StatusResponse session_id ''error'' ''Analysis not complete''), w')
    \<and> fst (delete_session session_id w') = fst (delete_session session_id w)
    \<and> fst (delete_session session_id w') \<noteq> Inl (HTTPException 404 ''Session not found'')
    \<and> (\<forall>r u. delete_session session_id w' = (Inr r, u) \<longrightarrow> active_sessions u session_id = None)
    \<and> (\<forall>found. finish_full session_id found (Inl msg) =
          (Inl (HTTPException 500 (''Analysis failed: '' @ msg)),
           found\<lparr>status := ''error'', error := Some msg\<rparr>))"
proof -
  obtain s where sess: "active_sessions w session_id = Some s"
    using assms(2,3) by (cases "active_sessions w session_id") (auto simp: analyze_meeting_def)
  have inv: "session_inv s"
    using assms(1) sess reachable_inv world_inv_get by blast
  have miss: "\<not> (analysis_complete s \<and> analysis s \<noteq> None)"
  proof
    assume c: "analysis_complete s \<and> analysis s \<noteq> None"
    then obtain r where "analysis s = Some r" by auto
    with c sess assms(2) have "eff = []" by (simp add: analyze_cached)
    with assms(3) show False by simp
  qed
  with inv have na: "analysis s = None" and nc: "\<not> analysis_complete s"
    by (auto simp: session_inv_def)
  from analyze_miss_cases [OF sess miss, of svc]
  consider (derived) sd sd1 k where
      "stream_data s = Some sd" "wait_for_stream (background svc) 15 0 sd = (k, sd1)"
      "is_fully_processed sd1"
    | (full) s1 k where
      "s1 = s \<or> (\<exists>sd1. s1 = s\<lparr>stream_data := Some sd1\<rparr>)"
      "analyze_meeting svc session_id w =
         run_full_analysis svc session_id s1 (put_session w session_id s1)
           (replicate k (Sleep 2))"
    by blast
  then show ?thesis
  proof cases
    case (derived sd sd1 k)
    from analyze_stream_ready [OF sess miss derived] assms(2)
    have "eff = replicate k (Sleep 2) @ [BuildAnalysisFromStream (file_path s)]"
      by (auto split: sum.splits)
    with assms(3) show ?thesis by simp
  next
    case (full s1 k)
    have fp: "file_path s1 = file_path s" and a1: "analysis s1 = None"
      and c1: "\<not> analysis_complete s1"
      using full(1) na nc by auto
    from full(2) assms(2)
    have rf: "run_full_analysis svc session_id s1 (put_session w session_id s1)
                (replicate k (Sleep 2)) = (out, w', eff)"
      by simp
    have ex: "fs_exists (fs w) (file_path s)"
      using rf assms(3) fp by (auto simp: run_full_cases split: if_splits)
    have p: "path = file_path s"
      using rf assms(3) fp ex by (auto simp: run_full_cases split: if_splits)
    have o: "out = Inl (HTTPException 500 (''Analysis failed: '' @ msg))"
      and w': "w' = put_session w session_id
                      (s1\<lparr>status := ''analyzing'', status := ''error'', error := Some msg\<rparr>)"
      using rf assms(4) fp ex p by (auto simp: run_full_cases finish_full_error)
    let ?s' = "s1\<lparr>status := ''analyzing'', status := ''error'', error := Some msg\<rparr>"
    have fp': "file_path ?s' = file_path s" using fp by simp
    have g: "get_analysis session_id w' =
         (Inr (StatusResponse session_id ''error'' ''Analysis not complete''), w')"
      using w' c1 by (simp add: get_analysis_def)
    show ?thesis
      using o w' a1 g delete_outcome_put [OF sess fp'] by (simp add: finish_full_error)
  qed
qed

theorem producer_failure_keeps_session_witness:
  "reachable uploaded_world
   \<and> analyze_meeting failing_services ''s1'' uploaded_world =
       (Inl (HTTPException 500 ''Analysis failed: decode error''), errored_world,
        [AnalyzeFull ''/tmp/moodflo/s1/Meeting.MP4''])
   \<and> analyze_full failing_services ''/tmp/moodflo/s1/Meeting.MP4'' = Inl ''decode error''
   \<and> active_sessions errored_world ''s1'' = Some errored_session
   \<and> get_analysis ''s1'' errored_world =
       (Inr (StatusResponse ''s1'' ''error'' ''Analysis not complete''), errored_world)
   \<and> delete_session ''s1'' errored_world =
       (Inr (MessageResponse ''Session deleted successfully''), empty_world)"
proof -
  have mem: "AnalyzeFull ''/tmp/moodflo/s1/Meeting.MP4''
               \<in> set [AnalyzeFull ''/tmp/moodflo/s1/Meeting.MP4'']"
    by simp
  have fails: "analyze_full failing_services ''/tmp/moodflo/s1/Meeting.MP4'' = Inl ''decode error''"
    by (simp add: failing_services_def working_services_def)
  note t = producer_failure_keeps_session [OF reachable_uploaded failing_example mem fails]
  have s: "active_sessions errored_world ''s1'' = Some errored_session"
    by (simp add: errored_world_def)
  have d: "delete_session ''s1'' errored_world =
       (Inr (MessageResponse ''Session deleted successfully''), empty_world)"
    by (auto simp: delete_session_def errored_world_def errored_session_def uploaded_world_def
        uploaded_session_def empty_world_def put_session_def path_defs fs_exists_def
        fs_unlink_def fs_rmdir_def Let_def)
  from t have g: "get_analysis ''s1'' errored_world =
       (Inr (StatusResponse ''s1'' ''error'' ''Analysis not complete''), errored_world)"
    by blast
  from reachable_uploaded failing_example fails s g d show ?thesis
    by blast
qed

section \<open>The bounded wait for the stream\<close>

lemma wait_timeout:
  "(\<forall>j<n. \<not> is_fully_processed (stream_after bg (k + j) sd0))
     \<Longrightarrow> wait_for_stream bg n k (stream_after bg k sd0) = (k + n, stream_after bg (k + n) sd0)"
proof (induction n arbitrary: k)
  case 0
  then show ?case by simp
next
  case (Suc n)
  from Suc.prems have now: "\<not> is_fully_processed (stream_after bg k sd0)"
    by (metis add.right_neutral zero_less_Suc)
  have later: "\<forall>j<n. \<not> is_fully_processed (stream_after bg (Suc k + j) sd0)"
    using Suc.prems by (metis Suc_less_eq add_Suc_shift)
  from Suc.IH [OF later] now show ?case
    by simp
qed

lemma wait_found:
  "j < n \<Longrightarrow> is_fully_processed (stream_after bg (k + j) sd0)
     \<Longrightarrow> (\<forall>i<j. \<not> is_fully_processed (stream_after bg (k + i) sd0))
     \<Longrightarrow> wait_for_stream bg n k (stream_after bg k sd0) = (k + j, stream_after bg (k + j) sd0)"
proof (induction n arbitrary: k j)
  case 0
  then show ?case by simp
next
  case (Suc n)
  show ?case
  proof (cases j)
    case 0
    with Suc.prems show ?thesis by simp
  next
    case (Suc j')
    with Suc.prems have now: "\<not> is_fully_processed (stream_after bg k sd0)"
      by (metis add.right_neutral zero_less_Suc)
    have j': "j' < n" using Suc Suc.prems by simp
    have f: "is_fully_processed (stream_after bg (Suc k + j') sd0)"
      using Suc Suc.prems by simp
    have l: "\<forall>i<j'. \<not> is_fully_processed (stream_after bg (Suc k + i) sd0)"
      using Suc Suc.prems by (metis Suc_less_eq add_Suc_shift)
    from Suc.IH [OF j' f l] now Suc show ?thesis
      by simp
  qed
qed

lemma wait_bound: "fst (wait_for_stream bg n k sd) \<le> k + n"
proof (induction n arbitrary: k sd)
  case 0
  then show ?case by simp
next
  case (Suc n)
  from Suc.IH [of "Suc k" "bg k sd"] show ?case
    by simp
qed

lemma finish_full_with_stream:
  "stream_data session \<noteq> None \<Longrightarrow>
     finish_full session_id session (Inr results) =
       (Inr (AnalysisResponse session_id ''complete'' (Some results)),
        session\<lparr>analysis := Some results, analysis_complete := True, status := ''complete''\<rparr>)"
  by (auto simp: finish_full_def Let_def)

lemma sleeps_replicate [simp]: "sleeps (replicate k (Sleep n) @ eff) = replicate k n @ sleeps eff"
  by (induction k) simp_all

lemma sleeps_bounded: "\<exists>k\<le>15. sleeps (snd (snd (analyze_meeting svc session_id w))) = replicate k 2"
proof (cases "active_sessions w session_id")
  case None
  then show ?thesis by (simp add: analyze_meeting_def)
next
  case (Some session)
  note sess = this
  show ?thesis
  proof (cases "analysis_complete session \<and> analysis session \<noteq> None")
    case True
    then show ?thesis using sess by (auto simp: analyze_meeting_def)
  next
    case False
    note miss = this
    show ?thesis
    proof (cases "stream_data session")
      case None
      from analyze_no_stream [OF sess miss None, of svc] show ?thesis
        by (auto simp: run_full_cases)
    next
      case (Some sd)
      obtain k sd1 where wl: "wait_for_stream (background svc) 15 0 sd = (k, sd1)"
        by (cases "wait_for_stream (background svc) 15 0 sd")
      from wait_bound [of "background svc" 15 0 sd] wl have k: "k \<le> 15"
        by simp
      have r: "sleeps (replicate k (Sleep 2)) = replicate k 2"
        using sleeps_replicate [of k 2 "[]"] by simp
      show ?thesis
      proof (cases "is_fully_processed sd1")
        case True
        from analyze_stream_ready [OF sess miss Some wl True] k show ?thesis
          by (auto split: sum.splits)
      next
        case False
        from analyze_stream_timeout [OF sess miss Some wl False] k r show ?thesis
          by (auto simp: run_full_cases)
      qed
    qed
  qed
qed

text \<open>
  Claim C3. For a session with stream data and no cached analysis,
  \<^verbatim>\<open>analyze_meeting\<close> polls the completion flag in a loop of at most 15 attempts
  separated by sleeps of 2 seconds, so it always leaves the loop: every run makes at
  most 15 sleeps, each of 2 seconds. If the flag is set at the first attempt where it
  is read as true after \<open>j\<close> sleeps (\<open>j\<close> at most 15, the last reading being the test
  after the loop), the analysis is built from the stream data after exactly \<open>j\<close>
  sleeps. If the flag is still false after all 15 sleeps, the run continues as the
  full computation; when the file exists and the full analysis succeeds, the
  caller gets the complete result and no error, after 15 sleeps and one full analysis.
\<close>

theorem bounded_wait_then_full_analysis:
  assumes "active_sessions w session_id = Some session"
    and "\<not> (analysis_complete session \<and> analysis session \<noteq> None)"
    and "stream_data session = Some sd"
  shows "(\<exists>k\<le>15. sleeps (snd (snd (analyze_meeting svc session_id w))) = replicate k 2)
    \<and> ((\<forall>k\<le>15. \<not> is_fully_processed (stream_after (background svc) k sd)) \<longrightarrow>
         analyze_meeting svc session_id w =
           run_full_analysis svc session_id
             (session\<lparr>stream_data := Some (stream_after (background svc) 15 sd)\<rparr>)
             (put_session w session_id
                (session\<lparr>stream_data := Some (stream_after (background svc) 15 sd)\<rparr>))
             (replicate 15 (Sleep 2)))
    \<and> ((\<forall>k\<le>15. \<not> is_fully_processed (stream_after (background svc) k sd))
         \<and> fs_exists (fs w) (file_path session)
         \<and> analyze_full svc (file_path session) = Inr results \<longrightarrow>
         fst (analyze_meeting svc session_id w)
           = Inr (AnalysisResponse session_id ''complete'' (Some results))
         \<and> snd (snd (analyze_meeting svc session_id w))
           = replicate 15 (Sleep 2) @ [AnalyzeFull (file_path session)])
    \<and> (j \<le> 15 \<and> is_fully_processed (stream_after (background svc) j sd)
         \<and> (\<forall>i<j. \<not> is_fully_processed (stream_after (background svc) i sd)) \<longrightarrow>
         snd (snd (analyze_meeting svc session_id w))
           = replicate j (Sleep 2) @ [BuildAnalysisFromStream (file_path session)])"
proof -
  let ?bg = "background svc"
  let ?s15 = "session\<lparr>stream_data := Some (stream_after ?bg 15 sd)\<rparr>"
  have timeout: "analyze_meeting svc session_id w =
           run_full_analysis svc session_id ?s15 (put_session w session_id ?s15)
             (replicate 15 (Sleep 2))"
    if never: "\<forall>k\<le>15. \<not> is_fully_processed (stream_after ?bg k sd)"
  proof -
    have "wait_for_stream ?bg 15 0 (stream_after ?bg 0 sd) = (0 + 15, stream_after ?bg (0 + 15) sd)"
      by (rule wait_timeout) (use never in simp)
    then have wl: "wait_for_stream ?bg 15 0 sd = (15, stream_after ?bg 15 sd)"
      by simp
    have nf: "\<not> is_fully_processed (stream_after ?bg 15 sd)"
      using never by simp
    from analyze_stream_timeout [OF assms wl nf] show ?thesis .
  qed
  have success: "fst (analyze_meeting svc session_id w)
           = Inr (AnalysisResponse session_id ''complete'' (Some results))
         \<and> snd (snd (analyze_meeting svc session_id w))
           = replicate 15 (Sleep 2) @ [AnalyzeFull (file_path session)]"
    if "\<forall>k\<le>15. \<not> is_fully_processed (stream_after ?bg k sd)"
      and "fs_exists (fs w) (file_path session)"
      and "analyze_full svc (file_path session) = Inr results"
    using timeout [OF that(1)] that(2,3)
    by (simp add: run_full_cases finish_full_with_stream)
  have ready: "snd (snd (analyze_meeting svc session_id w))
           = replicate j (Sleep 2) @ [BuildAnalysisFromStream (file_path session)]"
    if j: "j \<le> 15" and f: "is_fully_processed (stream_after ?bg j sd)"
      and l: "\<forall>i<j. \<not> is_fully_processed (stream_after ?bg i sd)"
  proof -
    have wl: "wait_for_stream ?bg 15 0 sd = (j, stream_after ?bg j sd)"
    proof (cases "j < 15")
      case True
      have "wait_for_stream ?bg 15 0 (stream_after ?bg 0 sd)
              = (0 + j, stream_after ?bg (0 + j) sd)"
        by (rule wait_found) (use True f l in simp_all)
      then show ?thesis by simp
    next
      case False
      with j have e: "j = 15" by simp
      have "wait_for_stream ?bg 15 0 (stream_after ?bg 0 sd)
              = (0 + 15, stream_after ?bg (0 + 15) sd)"
        by (rule wait_timeout) (use l e in simp)
      with e show ?thesis by simp
    qed
    from analyze_stream_ready [OF assms wl f] show ?thesis
      by (auto split: sum.splits)
  qed
  from sleeps_bounded timeout success ready show ?thesis
    by blast
qed

lemma stream_after_idle: "stream_after (\<lambda>k sd. sd) k sd = sd"
  by (induction k) simp_all

theorem bounded_wait_then_full_analysis_witness:
  "active_sessions streaming_world ''s1'' = Some streaming_session
   \<and> \<not> (analysis_complete streaming_session \<and> analysis streaming_session \<noteq> None)
   \<and> stream_data streaming_session = Some example_stream
   \<and> \<not> is_fully_processed (stream_after (background working_services) 15 example_stream)
   \<and> fs_exists (fs streaming_world) (file_path streaming_session)
   \<and> fst (analyze_meeting working_services ''s1'' streaming_world)
       = Inr (AnalysisResponse ''s1'' ''complete'' (Some example_result))
   \<and> snd (snd (analyze_meeting working_services ''s1'' streaming_world))
       = replicate 15 (Sleep 2) @ [AnalyzeFull ''/tmp/moodflo/s1/Meeting.MP4'']
   \<and> is_fully_processed (stream_after (background finishing_services) 3 example_stream)
   \<and> snd (snd (analyze_meeting finishing_services ''s1'' streaming_world))
       = replicate 3 (Sleep 2) @ [BuildAnalysisFromStream ''/tmp/moodflo/s1/Meeting.MP4'']"
proof -
  have a: "active_sessions streaming_world ''s1'' = Some streaming_session"
    by (simp add: streaming_world_def put_session_def)
  have b: "\<not> (analysis_complete streaming_session \<and> analysis streaming_session \<noteq> None)"
    by (simp add: streaming_session_def uploaded_session_def)
  have c: "stream_data streaming_session = Some example_stream"
    by (simp add: streaming_session_def)
  have p: "file_path streaming_session = ''/tmp/moodflo/s1/Meeting.MP4''"
    by (simp add: streaming_session_def uploaded_session_def)
  have never: "\<forall>k\<le>15. \<not> is_fully_processed (stream_after (background working_services) k example_stream)"
    by (simp add: working_services_def stream_after_idle example_stream_def)
  have ex: "fs_exists (fs streaming_world) (file_path streaming_session)"
    by (simp add: p streaming_world_def put_session_def uploaded_world_def fs_exists_def)
  have full: "analyze_full working_services (file_path streaming_session) = Inr example_result"
    by (simp add: working_services_def)
  have s3: "stream_after (background finishing_services) 3 example_stream
              = example_stream\<lparr>is_fully_processed := True\<rparr>"
    by (simp add: finishing_services_def working_services_def numeral_3_eq_3 numeral_2_eq_2)
  have is_fully_processed_s3:
    "is_fully_processed (stream_after (background finishing_services) 3 example_stream)"
    by (simp add: s3)
  have three: "(3::nat) \<le> 15"
    by simp
  have before: "\<forall>i<3. \<not> is_fully_processed (stream_after (background finishing_services) i example_stream)"
  proof (intro allI impI)
    fix i :: nat
    assume "i < 3"
    then consider "i = 0" | "i = 1" | "i = 2" by linarith
    then show "\<not> is_fully_processed (stream_after (background finishing_services) i example_stream)"
      by cases
        (simp_all add: finishing_services_def working_services_def example_stream_def
          numeral_3_eq_3 numeral_2_eq_2)
  qed
  note t1 = bounded_wait_then_full_analysis
    [OF a b c, of working_services example_result 3]
  note t2 = bounded_wait_then_full_analysis
    [OF a b c, of finishing_services example_result 3]
  have r1: "fst (analyze_meeting working_services ''s1'' streaming_world)
       = Inr (AnalysisResponse ''s1'' ''complete'' (Some example_result))
     \<and> snd (snd (analyze_meeting working_services ''s1'' streaming_world))
       = replicate 15 (Sleep 2) @ [AnalyzeFull ''/tmp/moodflo/s1/Meeting.MP4'']"
    using t1 [unfolded p] never ex [unfolded p] full [unfolded p] by blast
  have r2: "snd (snd (analyze_meeting finishing_services ''s1'' streaming_world))
       = replicate 3 (Sleep 2) @ [BuildAnalysisFromStream ''/tmp/moodflo/s1/Meeting.MP4'']"
    using t2 [unfolded p] s3 before three is_fully_processed_s3 by blast
  from never have last: "\<not> is_fully_processed (stream_after (background working_services) 15 example_stream)"
    by simp
  from a b c last ex r1 r2 is_fully_processed_s3 show ?thesis
    by blast
qed

section \<open>Analysis derived from finished stream data\<close>

lemma wait_ready: "is_fully_processed sd \<Longrightarrow> wait_for_stream bg 15 0 sd = (0, sd)"
  using wait_found [of 0 15 bg 0 sd] by simp

lemma wait_idle:
  assumes "\<not> is_fully_processed sd"
  shows "wait_for_stream (\<lambda>k sd. sd) 15 0 sd = (15, sd)"
proof -
  have "wait_for_stream (\<lambda>k sd. sd) 15 0 (stream_after (\<lambda>k sd. sd) 0 sd)
          = (0 + 15, stream_after (\<lambda>k sd. sd) (0 + 15) sd)"
    by (rule wait_timeout) (simp add: stream_after_idle assms)
  then show ?thesis
    by (simp add: stream_after_idle)
qed

lemma streaming_lookup: "active_sessions streaming_world ''s1'' = Some streaming_session"
  by (simp add: streaming_world_def)

lemma stream_example:
  "websocket_stream working_services ''s1'' uploaded_world =
     ([WsStatus ''Initializing real-time analysis...'', WsReady 100 ''Ready for streaming''],
      Serving, streaming_world)"
  by (simp add: websocket_stream_def uploaded_lookup uploaded_session_def working_services_def
      example_stream_def streaming_world_def streaming_session_def)

lemma running_streaming: "running streaming_world {#}"
proof -
  have "running (snd (snd (websocket_stream working_services ''s1'' uploaded_world))) {#}"
    using running_uploaded by (rule running.stream)
  then show ?thesis
    by (simp add: stream_example)
qed

lemma timeout_example:
  "analyze_meeting coarse_services ''s1'' streaming_world =
     (Inr (AnalysisResponse ''s1'' ''complete'' (Some coarse_result)),
      put_session uploaded_world ''s1''
        (streaming_session\<lparr>analysis := Some coarse_result, analysis_complete := True,
           status := ''complete''\<rparr>),
      replicate 15 (Sleep 2) @ [AnalyzeFull ''/tmp/moodflo/s1/Meeting.MP4''])"
proof -
  have m: "\<not> (analysis_complete streaming_session \<and> analysis streaming_session \<noteq> None)"
    and sd: "stream_data streaming_session = Some example_stream"
    and p: "file_path streaming_session = ''/tmp/moodflo/s1/Meeting.MP4''"
    by (simp_all add: streaming_session_def uploaded_session_def)
  have nf: "\<not> is_fully_processed example_stream"
    by (simp add: example_stream_def)
  have bg: "background coarse_services = (\<lambda>k sd. sd)"
    and f: "analyze_full coarse_services ''/tmp/moodflo/s1/Meeting.MP4'' = Inr coarse_result"
    by (simp_all add: coarse_services_def working_services_def)
  have wl: "wait_for_stream (background coarse_services) 15 0 example_stream = (15, example_stream)"
    unfolding bg using nf by (rule wait_idle)
  have same: "streaming_session\<lparr>stream_data := Some example_stream\<rparr> = streaming_session"
    by (simp add: streaming_session_def)
  have e: "fs_exists (fs streaming_world) ''/tmp/moodflo/s1/Meeting.MP4''"
    using uploaded_exists by (simp add: streaming_world_def)
  have w: "put_session streaming_world ''s1'' s = put_session uploaded_world ''s1'' s" for s
    by (simp add: streaming_world_def)
  have idem: "put_session streaming_world ''s1'' streaming_session = streaming_world"
    using streaming_lookup by (rule put_session_same)
  from analyze_stream_timeout [OF streaming_lookup m sd wl nf]
  have "analyze_meeting coarse_services ''s1'' streaming_world =
          run_full_analysis coarse_services ''s1'' streaming_session streaming_world
            (replicate 15 (Sleep 2))"
    by (simp add: same idem)
  also have "\<dots> =
     (Inr (AnalysisResponse ''s1'' ''complete'' (Some coarse_result)),
      put_session streaming_world ''s1''
        (streaming_session\<lparr>analysis := Some coarse_result, analysis_complete := True,
           status := ''complete''\<rparr>),
      replicate 15 (Sleep 2) @ [AnalyzeFull ''/tmp/moodflo/s1/Meeting.MP4''])"
    by (simp add: run_full_cases p e f finish_full_with_stream sd)
  finally show ?thesis
    by (simp add: w)
qed

lemma running_late_stream: "running late_stream_world {#}"
proof -
  let ?s = "streaming_session\<lparr>analysis := Some coarse_result, analysis_complete := True,
              status := ''complete''\<rparr>"
  have "running (fst (snd (analyze_meeting coarse_services ''s1'' streaming_world))) {#}"
    using running_streaming by (rule running.analyze)
  then have r: "running (put_session uploaded_world ''s1'' ?s) {#}"
    by (simp add: timeout_example)
  have l: "active_sessions (put_session uploaded_world ''s1'' ?s) ''s1'' = Some ?s"
    by simp
  have sd: "stream_data ?s = Some example_stream"
    by (simp add: streaming_session_def)
  from running.progress [OF r l sd, of "example_stream\<lparr>is_fully_processed := True\<rparr>"]
  show ?thesis
    by (simp add: late_stream_world_def late_stream_session_def streaming_session_def
        uploaded_session_def)
qed

text \<open>
  Claim C2, as stated, fails in a state that the server reaches: the session has
  started streaming, an analysis request has waited for the stream in vain and stored
  the result of the full analysis, and the stream has finished afterwards. The stream
  data exist and are fully processed, but the next analysis request is answered with
  the stored result of the full analysis: nothing is derived from the stream data, and
  the timeline returned has one point where the stream cache has two samples.
\<close>

theorem cached_analysis_shadows_stream:
  "reachable late_stream_world
   \<and> active_sessions late_stream_world ''s1'' = Some late_stream_session
   \<and> stream_data late_stream_session = Some (example_stream\<lparr>is_fully_processed := True\<rparr>)
   \<and> is_fully_processed (example_stream\<lparr>is_fully_processed := True\<rparr>)
   \<and> analyze_meeting deriving_services ''s1'' late_stream_world =
       (Inr (AnalysisResponse ''s1'' ''complete'' (Some coarse_result)), late_stream_world, [])
   \<and> timeline coarse_result
       \<noteq> map point_of_sample (samples (example_stream\<lparr>is_fully_processed := True\<rparr>))
   \<and> length (timeline coarse_result) = 1
   \<and> length (samples (example_stream\<lparr>is_fully_processed := True\<rparr>)) = 2"
proof -
  have r: "reachable late_stream_world"
    using running_late_stream by (auto simp: reachable_def)
  have l: "active_sessions late_stream_world ''s1'' = Some late_stream_session"
    by (simp add: late_stream_world_def)
  have c: "analysis_complete late_stream_session"
    and a: "analysis late_stream_session = Some coarse_result"
    and sd: "stream_data late_stream_session = Some (example_stream\<lparr>is_fully_processed := True\<rparr>)"
    by (simp_all add: late_stream_session_def)
  have n1: "length (timeline coarse_result) = 1"
    by (simp add: coarse_result_def)
  have n2: "length (samples (example_stream\<lparr>is_fully_processed := True\<rparr>)) = 2"
    by (simp add: samples_def example_stream_def)
  have d: "timeline coarse_result
             \<noteq> map point_of_sample (samples (example_stream\<lparr>is_fully_processed := True\<rparr>))"
  proof
    assume "timeline coarse_result
              = map point_of_sample (samples (example_stream\<lparr>is_fully_processed := True\<rparr>))"
    then have "length (timeline coarse_result)
                 = length (samples (example_stream\<lparr>is_fully_processed := True\<rparr>))"
      by simp
    with n1 n2 show False by simp
  qed
  from r l sd analyze_cached [OF l c a, of deriving_services] d n1 n2 show ?thesis
    by simp
qed

text \<open>
  Claim C2, amended. When the session's stream data exist and are fully processed at
  the time of the call, \<^verbatim>\<open>analyze_meeting\<close> never calls the full analysis and does not
  sleep. If an analysis is already cached, the call returns the cached analysis and
  changes nothing. If no analysis is cached, it calls \<^verbatim>\<open>build_analysis_from_stream\<close>
  once on those stream data and stores and returns its result with status "complete";
  with the derivation the specification describes, the timeline of that result is the
  samples of the stream cache, field for field, and its duration is the stream's.
\<close>

theorem stream_complete_derives_analysis:
  assumes "active_sessions w session_id = Some session"
    and "stream_data session = Some sd"
    and "is_fully_processed sd"
  shows "full_computations (snd (snd (analyze_meeting svc session_id w))) = 0
    \<and> sleeps (snd (snd (analyze_meeting svc session_id w))) = []
    \<and> (analysis_complete session \<and> analysis session = Some cached
       \<longrightarrow> analyze_meeting svc session_id w =
             (Inr (AnalysisResponse session_id ''complete'' (Some cached)), w, []))
    \<and> (\<not> (analysis_complete session \<and> analysis session \<noteq> None)
         \<and> build_analysis_from_stream svc = spec_build_analysis_from_stream aggregate insights
       \<longrightarrow> (\<exists>results s'.
             fst (analyze_meeting svc session_id w)
               = Inr (AnalysisResponse session_id ''complete'' (Some results))
             \<and> snd (snd (analyze_meeting svc session_id w))
               = [BuildAnalysisFromStream (file_path session)]
             \<and> active_sessions (fst (snd (analyze_meeting svc session_id w))) session_id = Some s'
             \<and> analysis s' = Some results \<and> analysis_complete s' \<and> status s' = ''complete''
             \<and> stream_data s' = Some sd
             \<and> timeline results = map point_of_sample (samples sd)
             \<and> length (timeline results) = length (samples sd)
             \<and> duration results = stream_cache.duration sd))"
proof (cases "analysis_complete session \<and> analysis session \<noteq> None")
  case True
  then obtain r where "analysis session = Some r" by auto
  with True assms(1) show ?thesis
    by (simp add: analyze_cached)
next
  case False
  note ready = analyze_stream_ready [OF assms(1) False assms(2) wait_ready [OF assms(3)] assms(3), of svc]
  have no_full: "full_computations (snd (snd (analyze_meeting svc session_id w))) = 0"
    and no_sleep: "sleeps (snd (snd (analyze_meeting svc session_id w))) = []"
    using ready by (auto split: sum.splits)
  have derived: "\<exists>results s'.
             fst (analyze_meeting svc session_id w)
               = Inr (AnalysisResponse session_id ''complete'' (Some results))
             \<and> snd (snd (analyze_meeting svc session_id w))
               = [BuildAnalysisFromStream (file_path session)]
             \<and> active_sessions (fst (snd (analyze_meeting svc session_id w))) session_id = Some s'
             \<and> analysis s' = Some results \<and> analysis_complete s' \<and> status s' = ''complete''
             \<and> stream_data s' = Some sd
             \<and> timeline results = map point_of_sample (samples sd)
             \<and> length (timeline results) = length (samples sd)
             \<and> duration results = stream_cache.duration sd"
    if "build_analysis_from_stream svc = spec_build_analysis_from_stream aggregate insights"
    using ready that by (simp add: spec_build_analysis_from_stream_def)
  from no_full no_sleep derived False show ?thesis
    by blast
qed

theorem stream_complete_derives_analysis_witness:
  "active_sessions ready_world ''s1'' = Some ready_session
   \<and> stream_data ready_session = Some (example_stream\<lparr>is_fully_processed := True\<rparr>)
   \<and> is_fully_processed (example_stream\<lparr>is_fully_processed := True\<rparr>)
   \<and> \<not> (analysis_complete ready_session \<and> analysis ready_session \<noteq> None)
   \<and> full_computations (snd (snd (analyze_meeting deriving_services ''s1'' ready_world))) = 0
   \<and> snd (snd (analyze_meeting deriving_services ''s1'' ready_world))
       = [BuildAnalysisFromStream ''/tmp/moodflo/s1/Meeting.MP4'']
   \<and> fst (analyze_meeting deriving_services ''s1'' ready_world)
       = Inr (AnalysisResponse ''s1'' ''complete'' (Some example_result))
   \<and> timeline example_result
       = map point_of_sample (samples (example_stream\<lparr>is_fully_processed := True\<rparr>))"
proof -
  let ?sd = "example_stream\<lparr>is_fully_processed := True\<rparr>"
  have a: "active_sessions ready_world ''s1'' = Some ready_session"
    by (simp add: ready_world_def)
  have b: "stream_data ready_session = Some ?sd"
    by (simp add: ready_session_def)
  have c: "is_fully_processed ?sd"
    by simp
  have d: "\<not> (analysis_complete ready_session \<and> analysis ready_session \<noteq> None)"
    by (simp add: ready_session_def uploaded_session_def)
  have e: "build_analysis_from_stream deriving_services =
             spec_build_analysis_from_stream (\<lambda>sd. example_summary) (fallback_suggestions fmt_tenths)"
    by (simp add: deriving_services_def)
  have p: "file_path ready_session = ''/tmp/moodflo/s1/Meeting.MP4''"
    by (simp add: ready_session_def uploaded_session_def)
  have r: "spec_build_analysis_from_stream (\<lambda>sd. example_summary) (fallback_suggestions fmt_tenths)
             ?sd ''/tmp/moodflo/s1/Meeting.MP4'' = Inr example_result"
    by (simp add: spec_build_analysis_from_stream_def example_result_def example_stream_def
        samples_def point_of_sample_def)
  have m: "timeline example_result = map point_of_sample (samples ?sd)"
    by (simp add: example_result_def example_stream_def samples_def point_of_sample_def)
  note t = stream_complete_derives_analysis
    [OF a b c, of deriving_services example_result "\<lambda>sd. example_summary"
       "fallback_suggestions fmt_tenths"]
  from t d e have eff: "snd (snd (analyze_meeting deriving_services ''s1'' ready_world))
       = [BuildAnalysisFromStream ''/tmp/moodflo/s1/Meeting.MP4'']"
    and nf: "full_computations (snd (snd (analyze_meeting deriving_services ''s1'' ready_world))) = 0"
    unfolding p by blast+
  have res: "fst (analyze_meeting deriving_services ''s1'' ready_world)
       = Inr (AnalysisResponse ''s1'' ''complete'' (Some example_result))"
    using analyze_stream_ready [OF a d b wait_ready [OF c] c, of deriving_services]
    by (simp add: e p r)
  from a b c d nf eff res m show ?thesis
    by blast
qed

section \<open>The analysis and the status of a session\<close>

lemma finish_example:
  "finish_full ''s1'' (uploaded_session\<lparr>status := ''analyzing''\<rparr>) (Inr example_result) =
     (Inr (AnalysisResponse ''s1'' ''complete'' (Some example_result)), analyzed_session)"
  by (simp add: finish_full_def example_stream_data analyzed_session_def uploaded_session_def
      Let_def)

lemma running_overlapped: "running overlapped_world {#}"
proof -
  let ?busy = "uploaded_session\<lparr>status := ''analyzing''\<rparr>"
  let ?w1 = "put_session uploaded_world ''s1'' ?busy"
  have m: "\<not> (analysis_complete uploaded_session \<and> analysis uploaded_session \<noteq> None)"
    and n: "stream_data uploaded_session = None"
    and p: "file_path uploaded_session = ''/tmp/moodflo/s1/Meeting.MP4''"
    by (simp_all add: uploaded_session_def)
  have e: "fs_exists (fs uploaded_world) (file_path uploaded_session)"
    using uploaded_exists by (simp add: p)
  have first: "running ?w1 {#Analyzing ''s1''#}"
    using running.enter_full [OF running_uploaded uploaded_lookup m n e] .
  have l1: "active_sessions ?w1 ''s1'' = Some ?busy"
    by simp
  have m1: "\<not> (analysis_complete ?busy \<and> analysis ?busy \<noteq> None)"
    and n1: "stream_data ?busy = None"
    using m n by simp_all
  have e1: "fs_exists (fs ?w1) (file_path ?busy)"
    using e by simp
  have "running (put_session ?w1 ''s1'' (?busy\<lparr>status := ''analyzing''\<rparr>))
          (add_mset (Analyzing ''s1'') {#Analyzing ''s1''#})"
    using running.enter_full [OF first l1 m1 n1 e1] .
  then have second: "running ?w1 (add_mset (Analyzing ''s1'') {#Analyzing ''s1''#})"
    by simp
  have "running (put_session ?w1 ''s1'' (snd (finish_full ''s1'' ?busy (Inr example_result))))
          {#Analyzing ''s1''#}"
    using running.full_done [OF second l1] .
  then have stored: "running analyzed_world (add_mset (Analyzing ''s1'') {#})"
    by (simp add: finish_example analyzed_world_def)
  have l2: "active_sessions analyzed_world ''s1'' = Some analyzed_session"
    by (simp add: analyzed_world_def)
  have "running (put_session analyzed_world ''s1''
                   (snd (finish_full ''s1'' analyzed_session (Inl ''decode error'')))) {#}"
    using running.full_done [OF stored l2] .
  then show ?thesis
    by (simp add: finish_full_error overlapped_world_def overlapped_session_def
        analyzed_world_def)
qed

text \<open>
  Claim C4, as stated, fails when two analysis requests for one session overlap. Both
  find no cached analysis and start the full analysis. The first one stores its result
  with status "complete"; then the second one fails and sets the status to "error".
  The session holds an analysis, and its status is not "complete".
\<close>

theorem analysis_with_error_status:
  "reachable overlapped_world
   \<and> active_sessions overlapped_world ''s1'' = Some overlapped_session
   \<and> analysis overlapped_session = Some example_result
   \<and> analysis_complete overlapped_session
   \<and> status overlapped_session = ''error''
   \<and> status overlapped_session \<noteq> ''complete''"
proof -
  have "reachable overlapped_world"
    using running_overlapped by (auto simp: reachable_def)
  then show ?thesis
    by (simp add: overlapped_world_def overlapped_session_def analyzed_session_def)
qed

text \<open>
  Claim C4, amended. In every state that the server reaches, overlapping requests
  included, a session holds an analysis exactly when its completion flag is set. Both
  places that store an analysis set the flag and the status "complete" with it: the
  derivation from the stream data always, and the full analysis whenever the request
  then returns its response. So a call of \<^verbatim>\<open>analyze_meeting\<close> that finds no cached
  analysis and returns a response leaves the session with the returned analysis, the
  flag set and status "complete".
\<close>

theorem analysis_present_iff_flag:
  "(reachable w \<and> active_sessions w session_id = Some s
      \<longrightarrow> (analysis s \<noteq> None \<longleftrightarrow> analysis_complete s))
   \<and> (analysis (store_derived found results) = Some results
        \<and> analysis_complete (store_derived found results)
        \<and> status (store_derived found results) = ''complete'')
   \<and> (finish_full session_id found outcome = (Inr resp, found')
      \<longrightarrow> (\<exists>stored. outcome = Inr stored
             \<and> resp = AnalysisResponse session_id ''complete'' (Some stored)
             \<and> analysis found' = Some stored \<and> analysis_complete found'
             \<and> status found' = ''complete''))
   \<and> (active_sessions w0 session_id = Some old
        \<and> \<not> (analysis_complete old \<and> analysis old \<noteq> None)
        \<and> analyze_meeting svc session_id w0 = (Inr resp, w1, eff)
      \<longrightarrow> (\<exists>stored s'. resp = AnalysisResponse session_id ''complete'' (Some stored)
             \<and> active_sessions w1 session_id = Some s'
             \<and> analysis s' = Some stored \<and> analysis_complete s'
             \<and> status s' = ''complete''))"
proof -
  have inv: "analysis s \<noteq> None \<longleftrightarrow> analysis_complete s"
    if "reachable w \<and> active_sessions w session_id = Some s"
  proof -
    from that have "session_inv s"
      using reachable_inv world_inv_get by blast
    then show ?thesis
      by (simp add: session_inv_def)
  qed
  have derived: "analysis (store_derived found results) = Some results
        \<and> analysis_complete (store_derived found results)
        \<and> status (store_derived found results) = ''complete''"
    by (simp add: store_derived_def)
  have full: "\<exists>stored. outcome = Inr stored
             \<and> resp = AnalysisResponse session_id ''complete'' (Some stored)
             \<and> analysis found' = Some stored \<and> analysis_complete found'
             \<and> status found' = ''complete''"
    if "finish_full session_id found outcome = (Inr resp, found')"
    using finish_full_returns [OF that] by blast
  have call: "\<exists>stored s'. resp = AnalysisResponse session_id ''complete'' (Some stored)
             \<and> active_sessions w1 session_id = Some s'
             \<and> analysis s' = Some stored \<and> analysis_complete s'
             \<and> status s' = ''complete''"
    if a: "active_sessions w0 session_id = Some old
        \<and> \<not> (analysis_complete old \<and> analysis old \<noteq> None)
        \<and> analyze_meeting svc session_id w0 = (Inr resp, w1, eff)"
  proof -
    from a have sess: "active_sessions w0 session_id = Some old"
      and miss: "\<not> (analysis_complete old \<and> analysis old \<noteq> None)"
      and run: "analyze_meeting svc session_id w0 = (Inr resp, w1, eff)"
      by simp_all
    from analyze_miss_cases [OF sess miss, of svc]
    consider (derived) sd sd1 k where
        "stream_data old = Some sd" "wait_for_stream (background svc) 15 0 sd = (k, sd1)"
        "is_fully_processed sd1"
      | (full) s1 k where
        "s1 = old \<or> (\<exists>sd1. s1 = old\<lparr>stream_data := Some sd1\<rparr>)"
        "analyze_meeting svc session_id w0 =
           run_full_analysis svc session_id s1 (put_session w0 session_id s1)
             (replicate k (Sleep 2))"
      by blast
    then show ?thesis
    proof cases
      case (derived sd sd1 k)
      from analyze_stream_ready [OF sess miss derived] run
      obtain r where
        "resp = AnalysisResponse session_id ''complete'' (Some r)"
        "w1 = put_session w0 session_id
               (old\<lparr>stream_data := Some sd1, analysis := Some r,
                    analysis_complete := True, status := ''complete''\<rparr>)"
        by (auto split: sum.splits)
      then show ?thesis
        by simp
    next
      case (full s1 k)
      let ?fin = "finish_full session_id (s1\<lparr>status := ''analyzing''\<rparr>)
                    (analyze_full svc (file_path s1))"
      from full(2) run
      have ex: "fs_exists (fs w0) (file_path s1)"
        by (auto simp: run_full_cases split: if_splits)
      with full(2) run
      have f: "fst ?fin = Inr resp" and b: "w1 = put_session w0 session_id (snd ?fin)"
        by (simp_all add: run_full_cases)
      from f have "?fin = (Inr resp, snd ?fin)"
        by (metis prod.collapse)
      from finish_full_returns [OF this]
      obtain r where
        "resp = AnalysisResponse session_id ''complete'' (Some r)"
        "analysis (snd ?fin) = Some r" "analysis_complete (snd ?fin)"
        "status (snd ?fin) = ''complete''"
        by blast
      with b show ?thesis
        by simp
    qed
  qed
  from inv derived full call show ?thesis
    by blast
qed

theorem analysis_present_iff_flag_witness:
  "reachable overlapped_world
   \<and> active_sessions overlapped_world ''s1'' = Some overlapped_session
   \<and> analysis overlapped_session \<noteq> None
   \<and> analysis_complete overlapped_session
   \<and> active_sessions uploaded_world ''s1'' = Some uploaded_session
   \<and> \<not> (analysis_complete uploaded_session \<and> analysis uploaded_session \<noteq> None)
   \<and> analyze_meeting working_services ''s1'' uploaded_world =
       (Inr (AnalysisResponse ''s1'' ''complete'' (Some example_result)), analyzed_world,
        [AnalyzeFull ''/tmp/moodflo/s1/Meeting.MP4''])
   \<and> finish_full ''s1'' (uploaded_session\<lparr>status := ''analyzing''\<rparr>) (Inr example_result) =
       (Inr (AnalysisResponse ''s1'' ''complete'' (Some example_result)), analyzed_session)
   \<and> analysis analyzed_session = Some example_result
   \<and> analysis_complete analyzed_session
   \<and> status analyzed_session = ''complete''"
proof -
  note t = analysis_present_iff_flag
    [of overlapped_world "''s1''" overlapped_session
        "uploaded_session\<lparr>status := ''analyzing''\<rparr>" example_result "Inr example_result"
        "AnalysisResponse ''s1'' ''complete'' (Some example_result)" analyzed_session
        uploaded_world uploaded_session working_services analyzed_world
        "[AnalyzeFull ''/tmp/moodflo/s1/Meeting.MP4'']"]
  have r: "reachable overlapped_world"
    using running_overlapped by (auto simp: reachable_def)
  have l: "active_sessions overlapped_world ''s1'' = Some overlapped_session"
    by (simp add: overlapped_world_def)
  have a: "analysis overlapped_session \<noteq> None"
    by (simp add: overlapped_session_def analyzed_session_def)
  have m: "\<not> (analysis_complete uploaded_session \<and> analysis uploaded_session \<noteq> None)"
    by (simp add: uploaded_session_def)
  from t r l a have c: "analysis_complete overlapped_session"
    by blast
  from t finish_example
  have d: "analysis analyzed_session = Some example_result
           \<and> analysis_complete analyzed_session \<and> status analyzed_session = ''complete''"
    by blast
  from r l a c uploaded_lookup m analyze_example finish_example d show ?thesis
    by blast
qed

text \<open>
  An exception after the store. In one call of \<^verbatim>\<open>analyze_meeting\<close> the full analysis
  returns a timeline with a point that has no raw emotion label. The result is stored
  with the flag set; then the stream data are built from it, inside the same \<^verbatim>\<open>try\<close>
  block, the missing key raises \<^verbatim>\<open>KeyError\<close>, and the \<^verbatim>\<open>except\<close> branch sets the status
  to "error" and leaves the stored analysis and the flag as they are.
\<close>

lemma exception_after_store:
  "analyze_meeting partial_services ''s1'' uploaded_world =
     (Inl (HTTPException 500 (''Analysis failed: '' @ apostrophe @ ''emotion_raw'' @ apostrophe)),
      put_session uploaded_world ''s1'' half_stored_session,
      [AnalyzeFull ''/tmp/moodflo/s1/Meeting.MP4''])
   \<and> analysis half_stored_session = Some partial_result
   \<and> analysis_complete half_stored_session
   \<and> status half_stored_session = ''error''"
proof -
  have p: "file_path uploaded_session = ''/tmp/moodflo/s1/Meeting.MP4''"
    and n: "stream_data uploaded_session = None"
    and m: "\<not> (analysis_complete uploaded_session \<and> analysis uploaded_session \<noteq> None)"
    by (simp_all add: uploaded_session_def)
  have f: "analyze_full partial_services ''/tmp/moodflo/s1/Meeting.MP4'' = Inr partial_result"
    by (simp add: partial_services_def working_services_def)
  have k: "stream_data_of_results partial_result = Inl (apostrophe @ ''emotion_raw'' @ apostrophe)"
    by (simp add: stream_data_of_results_def partial_result_def example_result_def read_key_def
        Let_def)
  have "finish_full ''s1'' (uploaded_session\<lparr>status := ''analyzing''\<rparr>) (Inr partial_result) =
          (Inl (HTTPException 500 (''Analysis failed: '' @ apostrophe @ ''emotion_raw'' @ apostrophe)),
           half_stored_session)"
    by (simp add: finish_full_def k half_stored_session_def uploaded_session_def Let_def)
  then have "analyze_meeting partial_services ''s1'' uploaded_world =
     (Inl (HTTPException 500 (''Analysis failed: '' @ apostrophe @ ''emotion_raw'' @ apostrophe)),
      put_session uploaded_world ''s1'' half_stored_session,
      [AnalyzeFull ''/tmp/moodflo/s1/Meeting.MP4''])"
    using analyze_no_stream [OF uploaded_lookup m n, of partial_services] uploaded_exists
    by (simp add: run_full_cases p f)
  then show ?thesis
    by (simp add: half_stored_session_def)
qed

section \<open>Properties of the report generator\<close>

lemma pdf_story_clock:
  "(pdf_story svc (report_generator_init now results session_id) = Inl e
      \<longrightarrow> pdf_story svc (report_generator_init now' results session_id) = Inl e)
   \<and> (pdf_story svc (report_generator_init now results session_id) = Inr story
      \<longrightarrow> (\<exists>rest.
            story =
              [Paragraph ''MOODFLO'' TitleStyle,
               Paragraph ''Meeting Emotion Analysis Report'' Heading2Style,
               Spacer 30,
               Table [[''Generated:'', now],
                      [''Session ID:'', take 13 session_id @ ''...''],
                      [''Duration:'', format_time svc (duration results)]] InfoTable] @ rest
            \<and> pdf_story svc (report_generator_init now' results session_id) =
                Inr ([Paragraph ''MOODFLO'' TitleStyle,
                      Paragraph ''Meeting Emotion Analysis Report'' Heading2Style,
                      Spacer 30,
                      Table [[''Generated:'', now'],
                             [''Session ID:'', take 13 session_id @ ''...''],
                             [''Duration:'', format_time svc (duration results)]] InfoTable]
                     @ rest)))"
  by (auto simp: pdf_story_def report_generator_init_def Let_def split: sum.splits)

lemma insights_build:
  "paragraph_error svc = (\<lambda>text. None) \<Longrightarrow> \<exists>fs. collect (insight_flowables svc) ls = Inr fs"
  by (induction ls) (auto simp: insight_flowables_def)

lemma example_story_builds:
  "\<exists>story. pdf_story working_services (report_generator_init now example_result ''s1'')
             = Inr story"
proof -
  have "paragraph_error working_services = (\<lambda>text. None)"
    by (simp add: working_services_def)
  from insights_build [OF this]
  obtain fs where "collect (insight_flowables working_services)
      (split_on CHR 0x0A
         (case suggestions example_result of
            None \<Rightarrow> ''No insights available.'' | Some s \<Rightarrow> s)) = Inr fs"
    by blast
  moreover have "\<exists>rows. collect (timeline_row working_services)
                          (every_sixth (timeline example_result)) = Inr rows"
    by (simp add: example_result_def timeline_row_def)
  ultimately show ?thesis
    by (auto simp: pdf_story_def report_generator_init_def Let_def)
qed




end
